theory Spec2Isabelle
  imports Complex_Main
begin

section \<open>JavaScript values held by the panel\<close>

text \<open>
  \<^verbatim>\<open>response.json()\<close> is typed \<^verbatim>\<open>any\<close>, so \<^verbatim>\<open>data.cloned_html\<close> can be any
  JavaScript value and \<^verbatim>\<open>setClonedHtml\<close> stores it as it is. A string value is kept
  as JavaScript holds it, as the list of its UTF-16 code units, each a number below
  0x10000; a surrogate may stand alone in it. A number is kept as its exact value.
  An object is the list of its fields in the order of the JSON text. The URL, the
  messages and the names of fields, which the panel only passes on or compares, are
  kept as the bytes of their text.
\<close>

type_synonym unit16 = nat

datatype jsval =
    JUndefined
  | JNull
  | JBool bool
  | JNum rat
  | JStr "unit16 list"
  | JArr "jsval list"
  | JObj "(string \<times> jsval) list"

text \<open>JavaScript truthiness, as used by \<^verbatim>\<open>{clonedHtml && (...)}\<close> and \<^verbatim>\<open>{error && (...)}\<close>.\<close>

fun truthy :: "jsval \<Rightarrow> bool" where
  "truthy JUndefined = False"
| "truthy JNull = False"
| "truthy (JBool b) = b"
| "truthy (JNum q) = (q \<noteq> 0)"
| "truthy (JStr s) = (s \<noteq> [])"
| "truthy (JArr xs) = True"
| "truthy (JObj fs) = True"

text \<open>
  A thrown value: an instance of \<^verbatim>\<open>Error\<close> with its \<^verbatim>\<open>message\<close>, or anything else.
  The \<^verbatim>\<open>catch\<close> block tells the two apart with \<^verbatim>\<open>err instanceof Error\<close>.
\<close>

datatype thrown = ErrorInstance string | OtherThrown jsval

text \<open>
  The outcome of awaiting a promise: it never settles, it rejects, or it resolves.
\<close>

datatype 'a settle = Pending | Rejects thrown | Resolves 'a

section \<open>From UTF-16 code units to UTF-8 bytes\<close>

text \<open>
  What the platform does with a string that becomes part of a \<^verbatim>\<open>Blob\<close>: the code units
  are read as scalar values, a surrogate pair as one value above 0xFFFF and a
  surrogate that stands alone as U+FFFD, and each scalar value is written in UTF-8.
\<close>

definition high_surrogate :: "unit16 \<Rightarrow> bool" where
  "high_surrogate u = (0xD800 \<le> u \<and> u \<le> 0xDBFF)"

definition low_surrogate :: "unit16 \<Rightarrow> bool" where
  "low_surrogate u = (0xDC00 \<le> u \<and> u \<le> 0xDFFF)"

fun scalar_values :: "unit16 list \<Rightarrow> nat list" where
  "scalar_values [] = []"
| "scalar_values [u] =
     (if high_surrogate u \<or> low_surrogate u then [0xFFFD] else [u])"
| "scalar_values (u # v # us) =
     (if high_surrogate u \<and> low_surrogate v
      then (0x10000 + (u - 0xD800) * 0x400 + (v - 0xDC00)) # scalar_values us
      else if high_surrogate u \<or> low_surrogate u then 0xFFFD # scalar_values (v # us)
      else u # scalar_values (v # us))"

fun well_formed :: "unit16 list \<Rightarrow> bool" where
  "well_formed [] = True"
| "well_formed [u] = (u < 0x10000 \<and> \<not> high_surrogate u \<and> \<not> low_surrogate u)"
| "well_formed (u # v # us) =
     (if high_surrogate u \<and> low_surrogate v then well_formed us
      else u < 0x10000 \<and> \<not> high_surrogate u \<and> \<not> low_surrogate u \<and> well_formed (v # us))"

definition utf8 :: "nat \<Rightarrow> string" where
  "utf8 c =
     (if c < 0x80 then [char_of c]
      else if c < 0x800 then [char_of (0xC0 + c div 0x40), char_of (0x80 + c mod 0x40)]
      else if c < 0x10000
        then [char_of (0xE0 + c div 0x1000), char_of (0x80 + c div 0x40 mod 0x40),
              char_of (0x80 + c mod 0x40)]
      else [char_of (0xF0 + c div 0x40000), char_of (0x80 + c div 0x1000 mod 0x40),
            char_of (0x80 + c div 0x40 mod 0x40), char_of (0x80 + c mod 0x40)])"

definition utf8_encode :: "unit16 list \<Rightarrow> string" where
  "utf8_encode s = concat (map utf8 (scalar_values s))"

text \<open>The code units of a text of ASCII characters.\<close>

definition ascii :: "string \<Rightarrow> unit16 list" where
  "ascii s = map of_char s"

section \<open>Decimal numerals and JSON string quoting\<close>

text \<open>The template literal \<^verbatim>\<open>${response.status}\<close> prints the status in decimal.\<close>

definition digit_char :: "nat \<Rightarrow> char" where
  "digit_char d = char_of (48 + d)"

function string_of_nat :: "nat \<Rightarrow> string" where
  "string_of_nat n =
     (if n < 10 then [digit_char n]
      else string_of_nat (n div 10) @ [digit_char (n mod 10)])"
  by pat_completeness auto
termination
  by (relation "measure (\<lambda>n. n)") auto

declare string_of_nat.simps [simp del]

text \<open>
  \<^verbatim>\<open>JSON.stringify\<close> on a string: the quotation mark and the backslash are escaped,
  the control characters below U+0020 are written with their short escape or as
  \<^verbatim>\<open>\u00XX\<close> in lowercase hexadecimal, every other character is copied.
\<close>

definition hex_digit :: "nat \<Rightarrow> char" where
  "hex_digit d = (if d < 10 then char_of (48 + d) else char_of (87 + d))"

definition quote_char :: "char \<Rightarrow> string" where
  "quote_char c =
     (if c = CHR 0x22 then [CHR 0x5C, CHR 0x22]
      else if c = CHR 0x5C then [CHR 0x5C, CHR 0x5C]
      else if c = CHR 0x08 then [CHR 0x5C, CHR ''b'']
      else if c = CHR 0x09 then [CHR 0x5C, CHR ''t'']
      else if c = CHR 0x0A then [CHR 0x5C, CHR ''n'']
      else if c = CHR 0x0C then [CHR 0x5C, CHR ''f'']
      else if c = CHR 0x0D then [CHR 0x5C, CHR ''r'']
      else if (of_char c :: nat) < 32
        then [CHR 0x5C, CHR ''u'', CHR ''0'', CHR ''0'',
              hex_digit ((of_char c :: nat) div 16), hex_digit ((of_char c :: nat) mod 16)]
      else [c])"

definition JSON_quote :: "string \<Rightarrow> string" where
  "JSON_quote s = [CHR 0x22] @ concat (map quote_char s) @ [CHR 0x22]"

text \<open>\<^verbatim>\<open>JSON.stringify({ target_url: targetUrl })\<close>.\<close>

definition stringify_target_url :: "string \<Rightarrow> string" where
  "stringify_target_url url =
     ''{'' @ JSON_quote ''target_url'' @ '':'' @ JSON_quote url @ ''}''"

section \<open>The request\<close>

record request =
  endpoint :: string
  http_method :: string
  headers :: "(string \<times> string) list"
  body :: string

text \<open>The arguments of the call of \<^verbatim>\<open>fetch\<close> in \<^verbatim>\<open>handleSubmit\<close>.\<close>

definition clone_request :: "string \<Rightarrow> request" where
  "clone_request url =
     \<lparr> endpoint = ''http://localhost:8000/clone'',
       http_method = ''POST'',
       headers = [(''Content-Type'', ''application/json'')],
       body = stringify_target_url url \<rparr>"

section \<open>The response\<close>

text \<open>
  What \<^verbatim>\<open>handleSubmit\<close> reads of a response: the status code and the outcome of
  \<^verbatim>\<open>response.json()\<close>. \<^verbatim>\<open>response.ok\<close> is true for the status codes 200 to 299.
\<close>

record response =
  status :: nat
  json :: "jsval settle"

definition ok :: "response \<Rightarrow> bool" where
  "ok r = (200 \<le> status r \<and> status r \<le> 299)"

text \<open>
  Reading a property of an object gives the value of the last field of that name,
  or \<^verbatim>\<open>undefined\<close> when there is none.
\<close>

definition get_property :: "(string \<times> jsval) list \<Rightarrow> string \<Rightarrow> jsval" where
  "get_property fs k = (case map_of (rev fs) k of None \<Rightarrow> JUndefined | Some v \<Rightarrow> v)"

definition cannot_read :: "string \<Rightarrow> string" where
  "cannot_read what =
     ''Cannot read properties of '' @ what @ '' (reading '' @ [CHR 0x27]
       @ ''cloned_html'' @ [CHR 0x27] @ '')''"

text \<open>
  \<^verbatim>\<open>data.cloned_html\<close>: reading a property of \<^verbatim>\<open>null\<close> or \<^verbatim>\<open>undefined\<close> throws a
  \<^verbatim>\<open>TypeError\<close> (the message is the engine's; V8's wording is used here); a string,
  number, boolean or array has no such property.
\<close>

fun get_cloned_html :: "jsval \<Rightarrow> thrown + jsval" where
  "get_cloned_html JUndefined = Inl (ErrorInstance (cannot_read ''undefined''))"
| "get_cloned_html JNull = Inl (ErrorInstance (cannot_read ''null''))"
| "get_cloned_html (JObj fs) = Inr (get_property fs ''cloned_html'')"
| "get_cloned_html (JBool b) = Inr JUndefined"
| "get_cloned_html (JNum q) = Inr JUndefined"
| "get_cloned_html (JStr s) = Inr JUndefined"
| "get_cloned_html (JArr xs) = Inr JUndefined"

text \<open>
  A JSON value in which the field \<^verbatim>\<open>cloned_html\<close> is missing: an object without a
  field of that name, or a value that is not an object.
\<close>

fun lacks_cloned_html :: "jsval \<Rightarrow> bool" where
  "lacks_cloned_html (JObj fs) = (''cloned_html'' \<notin> fst ` set fs)"
| "lacks_cloned_html v = True"

section \<open>The panel with the theme toggle (frontend/src/app/page.tsx)\<close>

text \<open>The six \<^verbatim>\<open>useState\<close> cells of \<^verbatim>\<open>Home\<close>.\<close>

record panel =
  targetUrl :: string
  loading :: bool
  clonedHtml :: jsval
  error :: "string option"
  showRawHtml :: bool
  isDarkMode :: bool

definition initial_panel :: panel where
  "initial_panel =
     \<lparr> targetUrl = [], loading = False, clonedHtml = JNull, error = None,
       showRawHtml = False, isDarkMode = False \<rparr>"

text \<open>
  The side effects of \<^verbatim>\<open>handleSubmit\<close>, in the order in which they happen. The
  state setters and the request are shared by the two variants of the page.
\<close>

datatype effect =
    PreventDefault
  | SetLoading bool
  | SetError "string option"
  | SetClonedHtml jsval
  | Fetch request
  | ConsoleError string thrown

text \<open>
  How a block of statements ends: normally, by throwing, or suspended at an
  \<^verbatim>\<open>await\<close> whose promise has not settled.
\<close>

datatype cont = AwaitFetch | AwaitJson

datatype completion = Normal | Throw thrown | Suspend cont

text \<open>
  The \<^verbatim>\<open>try\<close> block from \<^verbatim>\<open>await response.json()\<close> on:
  \<^verbatim>\<open>const data = await response.json(); setClonedHtml(data.cloned_html);\<close>
\<close>

definition after_json :: "jsval settle \<Rightarrow> effect list \<times> completion" where
  "after_json j =
     (case j of
        Pending \<Rightarrow> ([], Suspend AwaitJson)
      | Rejects err \<Rightarrow> ([], Throw err)
      | Resolves data \<Rightarrow>
          (case get_cloned_html data of
             Inl err \<Rightarrow> ([], Throw err)
           | Inr v \<Rightarrow> ([SetClonedHtml v], Normal)))"

text \<open>
  The \<^verbatim>\<open>try\<close> block from the settling of \<^verbatim>\<open>await fetch(...)\<close> on:
  \<^verbatim>\<open>if (!response.ok) throw new Error(`HTTP error! status: ${response.status}`);\<close>
  and then the reading of the body.
\<close>

definition after_fetch :: "response settle \<Rightarrow> effect list \<times> completion" where
  "after_fetch f =
     (case f of
        Pending \<Rightarrow> ([], Suspend AwaitFetch)
      | Rejects err \<Rightarrow> ([], Throw err)
      | Resolves r \<Rightarrow>
          (if \<not> ok r
           then ([], Throw (ErrorInstance (''HTTP error! status: '' @ string_of_nat (status r))))
           else after_json (json r)))"

definition try_block :: "string \<Rightarrow> response settle \<Rightarrow> effect list \<times> completion" where
  "try_block url f =
     (case after_fetch f of (es, c) \<Rightarrow> (Fetch (clone_request url) # es, c))"

text \<open>
  \<^verbatim>\<open>catch (err) { setError(err instanceof Error ? err.message : 'An error occurred');
  console.error('Error cloning website:', err); }\<close>
\<close>

definition catch_block :: "thrown \<Rightarrow> effect list" where
  "catch_block err =
     [SetError (Some (case err of
                        ErrorInstance m \<Rightarrow> m
                      | OtherThrown v \<Rightarrow> ''An error occurred'')),
      ConsoleError ''Error cloning website:'' err]"

text \<open>\<^verbatim>\<open>finally { setLoading(false); }\<close>\<close>

definition finally_block :: "effect list" where
  "finally_block = [SetLoading False]"

text \<open>
  What follows the \<^verbatim>\<open>try\<close> block: the \<^verbatim>\<open>catch\<close> block when it threw, and the
  \<^verbatim>\<open>finally\<close> block unless the handler is still suspended.
\<close>

definition catch_finally :: "effect list \<times> completion \<Rightarrow> effect list" where
  "catch_finally ec =
     (case ec of (es, c) \<Rightarrow>
        es @ (case c of
                Normal \<Rightarrow> finally_block
              | Throw err \<Rightarrow> catch_block err @ finally_block
              | Suspend k \<Rightarrow> []))"

text \<open>
  The statements of \<^verbatim>\<open>handleSubmit\<close> before the \<^verbatim>\<open>try\<close> block.
\<close>

definition prologue :: "effect list" where
  "prologue = [PreventDefault, SetLoading True, SetError None, SetClonedHtml JNull]"

text \<open>
  \<^verbatim>\<open>handleSubmit\<close>, run against a network that answers the request with \<open>f\<close>. It reads
  \<^verbatim>\<open>targetUrl\<close> and nothing else of the state.
\<close>

definition handleSubmit :: "panel \<Rightarrow> response settle \<Rightarrow> effect list" where
  "handleSubmit s f = prologue @ catch_finally (try_block (targetUrl s) f)"

text \<open>The state setters; the other effects leave the state cells alone.\<close>

fun apply_effect :: "panel \<Rightarrow> effect \<Rightarrow> panel" where
  "apply_effect s (SetLoading b) = s\<lparr>loading := b\<rparr>"
| "apply_effect s (SetError e) = s\<lparr>error := e\<rparr>"
| "apply_effect s (SetClonedHtml v) = s\<lparr>clonedHtml := v\<rparr>"
| "apply_effect s PreventDefault = s"
| "apply_effect s (Fetch rq) = s"
| "apply_effect s (ConsoleError m err) = s"

definition run_effects :: "panel \<Rightarrow> effect list \<Rightarrow> panel" where
  "run_effects s es = foldl apply_effect s es"

text \<open>The requests issued by a list of effects.\<close>

fun requests_of :: "effect list \<Rightarrow> request list" where
  "requests_of [] = []"
| "requests_of (Fetch rq # es) = rq # requests_of es"
| "requests_of (e # es) = requests_of es"

text \<open>
  The two toggle buttons:
  \<^verbatim>\<open>onClick={() => setIsDarkMode(!isDarkMode)}\<close> and
  \<^verbatim>\<open>onClick={() => setShowRawHtml(!showRawHtml)}\<close>.
\<close>

definition toggleTheme :: "panel \<Rightarrow> panel" where
  "toggleTheme s = s\<lparr>isDarkMode := \<not> isDarkMode s\<rparr>"

definition toggleRawHtml :: "panel \<Rightarrow> panel" where
  "toggleRawHtml s = s\<lparr>showRawHtml := \<not> showRawHtml s\<rparr>"

text \<open>\<^verbatim>\<open>onChange={(e) => setTargetUrl(e.target.value)}\<close>\<close>

definition changeUrl :: "string \<Rightarrow> panel \<Rightarrow> panel" where
  "changeUrl v s = s\<lparr>targetUrl := v\<rparr>"

subsection \<open>What the panel renders\<close>

datatype icon = Moon | Sun

datatype display =
    RawText jsval
  | Preview jsval string

record result_view =
  result_heading_class :: string
  raw_button_label :: string
  shown :: display

text \<open>
  \<^verbatim>\<open>{clonedHtml && (...)}\<close> renders the section when the value is truthy; of the falsy
  values React prints the number zero as text and nothing for the others.
\<close>

datatype result_slot = NoResult | ZeroText | ResultSection result_view

record view =
  root_class :: string
  card_class :: string
  theme_icon :: icon
  title_class :: string
  tagline_class :: string
  label_class :: string
  input_value :: string
  input_class :: string
  input_disabled :: bool
  submit_disabled :: bool
  submit_label :: string
  error_box :: "string option"
  spinner_class :: "string option"
  result :: result_slot

definition render_result :: "panel \<Rightarrow> result_slot" where
  "render_result s =
     (if truthy (clonedHtml s)
      then ResultSection
        \<lparr> result_heading_class =
            ''text-xl font-semibold '' @ (if isDarkMode s then ''text-white'' else ''text-gray-900''),
          raw_button_label = (if showRawHtml s then ''Hide Raw HTML'' else ''Show Raw HTML''),
          shown =
            (if showRawHtml s then RawText (clonedHtml s)
             else Preview (clonedHtml s)
                    (''1px solid '' @ (if isDarkMode s then ''#4b5563'' else ''#e5e7eb''))) \<rparr>
      else (case clonedHtml s of JNum q \<Rightarrow> ZeroText | _ \<Rightarrow> NoResult))"

definition render :: "panel \<Rightarrow> view" where
  "render s =
     \<lparr> root_class =
         ''min-h-screen '' @ (if isDarkMode s then ''bg-gray-900'' else ''bg-gray-50 text-gray-900''),
       card_class =
         ''rounded-lg shadow-sm p-8 space-y-8 '' @ (if isDarkMode s then ''bg-gray-800'' else ''bg-white''),
       theme_icon = (if isDarkMode s then Moon else Sun),
       title_class =
         ''text-3xl font-bold '' @ (if isDarkMode s then ''text-white'' else ''text-gray-900''),
       tagline_class = ''text-gray-600 '' @ (if isDarkMode s then ''text-white'' else []),
       label_class =
         ''block text-sm font-medium '' @ (if isDarkMode s then ''text-white'' else ''text-gray-700''),
       input_value = targetUrl s,
       input_class =
         ''w-full px-4 py-3 border rounded-lg focus:outline-none focus:ring-2 ''
         @ ''focus:ring-blue-500 focus:border-transparent transition-colors ''
         @ (if isDarkMode s then ''border-gray-600 bg-gray-700 text-white placeholder-white''
            else ''border-gray-300 bg-white text-gray-900 placeholder-gray-500''),
       input_disabled = loading s,
       submit_disabled = loading s,
       submit_label = (if loading s then ''Cloning...'' else ''Clone Website''),
       error_box = (case error s of None \<Rightarrow> None | Some m \<Rightarrow> if m = [] then None else Some m),
       spinner_class =
         (if loading s then Some (if isDarkMode s then ''text-white'' else ''text-gray-600'')
          else None),
       result = render_result s \<rparr>"

subsection \<open>The panel as a machine driven by events\<close>

text \<open>
  The page together with the invocations of \<^verbatim>\<open>handleSubmit\<close> that are suspended at an
  \<^verbatim>\<open>await\<close>, and the requests sent so far. React renders again after every event
  handler and after every resumed handler, so the controls a user meets are those of
  \<open>render\<close> at the current state.
\<close>

record sys =
  page :: panel
  suspended :: "cont list"
  sent :: "request list"

definition initial_sys :: sys where
  "initial_sys = \<lparr> page = initial_panel, suspended = [], sent = [] \<rparr>"

datatype event =
    Submit
  | FetchSettles nat "response settle"
  | JsonSettles nat "jsval settle"
  | ToggleTheme
  | ToggleRawHtml
  | ChangeUrl string

text \<open>
  Resuming the \<open>i\<close>-th suspended invocation with the rest of its \<^verbatim>\<open>try\<close> block: its
  effects reach the state, and it leaves the list unless it suspends again.
\<close>

definition resume :: "sys \<Rightarrow> nat \<Rightarrow> effect list \<times> completion \<Rightarrow> sys" where
  "resume t i ec =
     \<lparr> page = run_effects (page t) (catch_finally ec),
       suspended =
         (case snd ec of
            Suspend k \<Rightarrow> (suspended t)[i := k]
          | _ \<Rightarrow> take i (suspended t) @ drop (Suc i) (suspended t)),
       sent = sent t @ requests_of (catch_finally ec) \<rparr>"

text \<open>
  One event. A disabled control gives no event and a promise settles only for an
  invocation that awaits it: such an event is refused with \<open>None\<close>. The form is
  submitted through its submit button, which \<^verbatim>\<open>disabled={loading}\<close> switches off;
  the check of the URL by the browser is left out, so that every text can be submitted.
\<close>

fun step :: "sys \<Rightarrow> event \<Rightarrow> sys option" where
  "step t Submit =
     (if submit_disabled (render (page t)) then None
      else Some
        \<lparr> page = run_effects (page t) (handleSubmit (page t) Pending),
          suspended = suspended t @ [AwaitFetch],
          sent = sent t @ requests_of (handleSubmit (page t) Pending) \<rparr>)"
| "step t (FetchSettles i f) =
     (if i < length (suspended t) \<and> suspended t ! i = AwaitFetch \<and> f \<noteq> Pending
      then Some (resume t i (after_fetch f)) else None)"
| "step t (JsonSettles i j) =
     (if i < length (suspended t) \<and> suspended t ! i = AwaitJson \<and> j \<noteq> Pending
      then Some (resume t i (after_json j)) else None)"
| "step t ToggleTheme = Some (t\<lparr>page := toggleTheme (page t)\<rparr>)"
| "step t ToggleRawHtml =
     (case result (render (page t)) of
        ResultSection v \<Rightarrow> Some (t\<lparr>page := toggleRawHtml (page t)\<rparr>)
      | _ \<Rightarrow> None)"
| "step t (ChangeUrl v) =
     (if input_disabled (render (page t)) then None
      else Some (t\<lparr>page := changeUrl v (page t)\<rparr>))"

text \<open>
  A sequence of events, each one either taking its step or, when it is refused,
  leaving everything as it is.
\<close>

definition dispatch :: "sys \<Rightarrow> event \<Rightarrow> sys" where
  "dispatch t e = (case step t e of None \<Rightarrow> t | Some t' \<Rightarrow> t')"

definition dispatch_all :: "sys \<Rightarrow> event list \<Rightarrow> sys" where
  "dispatch_all t es = foldl dispatch t es"

subsection \<open>The download button\<close>

text \<open>
  The part of the browser that the \<^verbatim>\<open>onClick\<close> handler of "Download HTML File"
  touches: the store of object URLs, the children of \<^verbatim>\<open>document.body\<close>, and the
  files whose saving has been started. Object URLs and nodes are numbered; a new one
  gets a number that is not in use.
\<close>

record blob =
  blob_bytes :: string
  blob_type :: string

record saved_file =
  file_name :: string
  file_type :: string
  file_bytes :: string

record anchor =
  node :: nat
  href :: "nat option"
  download :: "string option"

record browser =
  object_urls :: "(nat \<times> blob) list"
  body_children :: "nat list"
  downloads :: "saved_file list"

definition fresh :: "nat list \<Rightarrow> nat" where
  "fresh used = Suc (foldr max used 0)"

text \<open>
  \<^verbatim>\<open>new Blob([html], { type })\<close>: the bytes of a string part are its UTF-8 encoding,
  with U+FFFD written for a surrogate that stands alone.
\<close>

definition new_Blob :: "unit16 list \<Rightarrow> string \<Rightarrow> blob" where
  "new_Blob html ty = \<lparr> blob_bytes = utf8_encode html, blob_type = ty \<rparr>"

definition createObjectURL :: "blob \<Rightarrow> browser \<Rightarrow> nat \<times> browser" where
  "createObjectURL b br =
     (let u = fresh (map fst (object_urls br))
      in (u, br\<lparr>object_urls := object_urls br @ [(u, b)]\<rparr>))"

definition revokeObjectURL :: "nat \<Rightarrow> browser \<Rightarrow> browser" where
  "revokeObjectURL u br = br\<lparr>object_urls := filter (\<lambda>kb. fst kb \<noteq> u) (object_urls br)\<rparr>"

definition createElement_a :: "browser \<Rightarrow> anchor" where
  "createElement_a br = \<lparr> node = fresh (body_children br), href = None, download = None \<rparr>"

definition appendChild :: "anchor \<Rightarrow> browser \<Rightarrow> browser" where
  "appendChild a br = br\<lparr>body_children := body_children br @ [node a]\<rparr>"

definition removeChild :: "anchor \<Rightarrow> browser \<Rightarrow> browser" where
  "removeChild a br = br\<lparr>body_children := remove1 (node a) (body_children br)\<rparr>"

text \<open>
  A click on an anchor that has a \<^verbatim>\<open>download\<close> attribute starts the saving of what
  its \<^verbatim>\<open>href\<close> names, under the name of the attribute. An object URL is looked up in
  the store at that moment: a revoked one gives no file.
\<close>

definition click :: "anchor \<Rightarrow> browser \<Rightarrow> browser" where
  "click a br =
     (case (href a, download a) of
        (Some u, Some name) \<Rightarrow>
          (case map_of (object_urls br) u of
             Some b \<Rightarrow>
               br\<lparr>downloads := downloads br @
                   [\<lparr> file_name = name, file_type = blob_type b, file_bytes = blob_bytes b \<rparr>]\<rparr>
           | None \<Rightarrow> br)
      | _ \<Rightarrow> br)"

text \<open>
  The handler, statement by statement; \<open>html\<close> is the string in \<^verbatim>\<open>clonedHtml\<close>.
\<close>

definition download_onClick :: "unit16 list \<Rightarrow> browser \<Rightarrow> browser" where
  "download_onClick html br =
     (let b = new_Blob html ''text/html'';
          (url, br1) = createObjectURL b br;
          a = createElement_a br1;
          a1 = a\<lparr>href := Some url\<rparr>;
          a2 = a1\<lparr>download := Some ''cloned_site.html''\<rparr>;
          br2 = appendChild a2 br1;
          br3 = click a2 br2;
          br4 = removeChild a2 br3
      in revokeObjectURL url br4)"

section \<open>The panel without the theme toggle (src/app/page.tsx)\<close>

text \<open>The four \<^verbatim>\<open>useState\<close> cells of this variant of \<^verbatim>\<open>Home\<close>.\<close>

record panel_plain =
  targetUrl_plain :: string
  loading_plain :: bool
  clonedHtml_plain :: jsval
  error_plain :: "string option"

definition initial_panel_plain :: panel_plain where
  "initial_panel_plain =
     \<lparr> targetUrl_plain = [], loading_plain = False, clonedHtml_plain = JNull,
       error_plain = None \<rparr>"

text \<open>
  \<^verbatim>\<open>handleSubmit\<close> of this variant, written out in one piece: the statements before
  \<^verbatim>\<open>try\<close>, the request, and then by cases of how the two promises settle.
\<close>

definition handleSubmit_plain :: "panel_plain \<Rightarrow> response settle \<Rightarrow> effect list" where
  "handleSubmit_plain s f =
     [PreventDefault, SetLoading True, SetError None, SetClonedHtml JNull,
      Fetch \<lparr> endpoint = ''http://localhost:8000/clone'',
              http_method = ''POST'',
              headers = [(''Content-Type'', ''application/json'')],
              body = stringify_target_url (targetUrl_plain s) \<rparr>]
     @ (case f of
          Pending \<Rightarrow> []
        | Rejects err \<Rightarrow>
            [SetError (Some (case err of ErrorInstance m \<Rightarrow> m
                                        | OtherThrown v \<Rightarrow> ''An error occurred'')),
             ConsoleError ''Error cloning website:'' err,
             SetLoading False]
        | Resolves r \<Rightarrow>
            (if \<not> ok r
             then [SetError (Some (''HTTP error! status: '' @ string_of_nat (status r))),
                   ConsoleError ''Error cloning website:''
                     (ErrorInstance (''HTTP error! status: '' @ string_of_nat (status r))),
                   SetLoading False]
             else (case json r of
                     Pending \<Rightarrow> []
                   | Rejects err \<Rightarrow>
                       [SetError (Some (case err of ErrorInstance m \<Rightarrow> m
                                                   | OtherThrown v \<Rightarrow> ''An error occurred'')),
                        ConsoleError ''Error cloning website:'' err,
                        SetLoading False]
                   | Resolves data \<Rightarrow>
                       (case get_cloned_html data of
                          Inl err \<Rightarrow>
                            [SetError (Some (case err of ErrorInstance m \<Rightarrow> m
                                                        | OtherThrown v \<Rightarrow> ''An error occurred'')),
                             ConsoleError ''Error cloning website:'' err,
                             SetLoading False]
                        | Inr v \<Rightarrow> [SetClonedHtml v, SetLoading False]))))"

fun apply_effect_plain :: "panel_plain \<Rightarrow> effect \<Rightarrow> panel_plain" where
  "apply_effect_plain s (SetLoading b) = s\<lparr>loading_plain := b\<rparr>"
| "apply_effect_plain s (SetError e) = s\<lparr>error_plain := e\<rparr>"
| "apply_effect_plain s (SetClonedHtml v) = s\<lparr>clonedHtml_plain := v\<rparr>"
| "apply_effect_plain s PreventDefault = s"
| "apply_effect_plain s (Fetch rq) = s"
| "apply_effect_plain s (ConsoleError m err) = s"

definition run_effects_plain :: "panel_plain \<Rightarrow> effect list \<Rightarrow> panel_plain" where
  "run_effects_plain s es = foldl apply_effect_plain s es"

text \<open>The form controls and the three conditional parts of this variant.\<close>

record view_plain =
  input_value_plain :: string
  input_disabled_plain :: bool
  submit_disabled_plain :: bool
  submit_label_plain :: string
  error_box_plain :: "string option"
  spinner_plain :: bool
  preview_plain :: "jsval option"
  zero_text_plain :: bool

definition render_plain :: "panel_plain \<Rightarrow> view_plain" where
  "render_plain s =
     \<lparr> input_value_plain = targetUrl_plain s,
       input_disabled_plain = loading_plain s,
       submit_disabled_plain = loading_plain s,
       submit_label_plain = (if loading_plain s then ''Cloning...'' else ''Clone Website''),
       error_box_plain =
         (case error_plain s of None \<Rightarrow> None | Some m \<Rightarrow> if m = [] then None else Some m),
       spinner_plain = loading_plain s,
       preview_plain =
         (if truthy (clonedHtml_plain s) then Some (clonedHtml_plain s) else None),
       zero_text_plain = (clonedHtml_plain s = JNum 0) \<rparr>"

section \<open>The panel without the theme toggle as a machine\<close>

text \<open>
  The same machine for the variant without the theme toggle. Its handler is written
  in one piece, so what a resumed invocation does is read off a whole run: the
  effects of \<^verbatim>\<open>handleSubmit\<close> after those it issues before the first \<^verbatim>\<open>await\<close>. An
  invocation that waits for the body has received a response with a 2xx status, and
  the handler does not look at the status again; 200 stands for it.
\<close>

record sys_plain =
  page_plain :: panel_plain
  suspended_plain :: "cont list"
  sent_plain :: "request list"

definition initial_sys_plain :: sys_plain where
  "initial_sys_plain = \<lparr> page_plain = initial_panel_plain, suspended_plain = [], sent_plain = [] \<rparr>"

datatype event_plain =
    Submit_plain
  | FetchSettles_plain nat "response settle"
  | JsonSettles_plain nat "jsval settle"
  | ChangeUrl_plain string

definition settle_plain :: "panel_plain \<Rightarrow> response settle \<Rightarrow> effect list" where
  "settle_plain s f = drop (length (handleSubmit_plain s Pending)) (handleSubmit_plain s f)"

definition awaits_plain :: "response settle \<Rightarrow> cont option" where
  "awaits_plain f =
     (case f of
        Pending \<Rightarrow> Some AwaitFetch
      | Rejects err \<Rightarrow> None
      | Resolves r \<Rightarrow> if ok r \<and> json r = Pending then Some AwaitJson else None)"

definition resume_plain :: "sys_plain \<Rightarrow> nat \<Rightarrow> response settle \<Rightarrow> sys_plain" where
  "resume_plain t i f =
     \<lparr> page_plain = run_effects_plain (page_plain t) (settle_plain (page_plain t) f),
       suspended_plain =
         (case awaits_plain f of
            Some k \<Rightarrow> (suspended_plain t)[i := k]
          | None \<Rightarrow> take i (suspended_plain t) @ drop (Suc i) (suspended_plain t)),
       sent_plain = sent_plain t @ requests_of (settle_plain (page_plain t) f) \<rparr>"

fun step_plain :: "sys_plain \<Rightarrow> event_plain \<Rightarrow> sys_plain option" where
  "step_plain t Submit_plain =
     (if submit_disabled_plain (render_plain (page_plain t)) then None
      else Some
        \<lparr> page_plain =
            run_effects_plain (page_plain t) (handleSubmit_plain (page_plain t) Pending),
          suspended_plain = suspended_plain t @ [AwaitFetch],
          sent_plain = sent_plain t @ requests_of (handleSubmit_plain (page_plain t) Pending) \<rparr>)"
| "step_plain t (FetchSettles_plain i f) =
     (if i < length (suspended_plain t) \<and> suspended_plain t ! i = AwaitFetch \<and> f \<noteq> Pending
      then Some (resume_plain t i f) else None)"
| "step_plain t (JsonSettles_plain i j) =
     (if i < length (suspended_plain t) \<and> suspended_plain t ! i = AwaitJson \<and> j \<noteq> Pending
      then Some (resume_plain t i (Resolves \<lparr> status = 200, json = j \<rparr>)) else None)"
| "step_plain t (ChangeUrl_plain v) =
     (if input_disabled_plain (render_plain (page_plain t)) then None
      else Some (t\<lparr>page_plain := (page_plain t)\<lparr>targetUrl_plain := v\<rparr>\<rparr>))"

definition dispatch_plain :: "sys_plain \<Rightarrow> event_plain \<Rightarrow> sys_plain" where
  "dispatch_plain t e = (case step_plain t e of None \<Rightarrow> t | Some t' \<Rightarrow> t')"

definition dispatch_all_plain :: "sys_plain \<Rightarrow> event_plain list \<Rightarrow> sys_plain" where
  "dispatch_all_plain t es = foldl dispatch_plain t es"

text \<open>
  What the variant without the theme toggle keeps of a state of the other one, and
  the events the two have in common.
\<close>

definition plain_of :: "panel \<Rightarrow> panel_plain" where
  "plain_of s =
     \<lparr> targetUrl_plain = targetUrl s, loading_plain = loading s,
       clonedHtml_plain = clonedHtml s, error_plain = error s \<rparr>"

definition project :: "sys \<Rightarrow> sys_plain" where
  "project t = \<lparr> page_plain = plain_of (page t), suspended_plain = suspended t, sent_plain = sent t \<rparr>"

fun embed :: "event_plain \<Rightarrow> event" where
  "embed Submit_plain = Submit"
| "embed (FetchSettles_plain i f) = FetchSettles i f"
| "embed (JsonSettles_plain i j) = JsonSettles i j"
| "embed (ChangeUrl_plain v) = ChangeUrl v"

section \<open>The invariant of the request lifecycle\<close>

text \<open>
  At most one invocation of \<^verbatim>\<open>handleSubmit\<close> is suspended; \<^verbatim>\<open>loading\<close> is true exactly
  while one is; while one is, result and error are both cleared; and they are never
  both set.
\<close>

definition lifecycle_inv :: "sys \<Rightarrow> bool" where
  "lifecycle_inv t =
     (length (suspended t) \<le> 1
      \<and> (loading (page t) = (suspended t \<noteq> []))
      \<and> (suspended t = [] \<or> (clonedHtml (page t) = JNull \<and> error (page t) = None))
      \<and> (clonedHtml (page t) = JNull \<or> error (page t) = None))"

section \<open>States that differ in the theme only\<close>

text \<open>
  A state of the panel with its theme flag overwritten. Two states differ in the theme
  only when they are equal once the flag is forgotten.
\<close>

definition set_theme :: "bool \<Rightarrow> sys \<Rightarrow> sys" where
  "set_theme d t = t\<lparr>page := (page t)\<lparr>isDarkMode := d\<rparr>\<rparr>"

definition forget_theme :: "sys \<Rightarrow> sys" where
  "forget_theme t = t\<lparr>page := (page t)\<lparr>isDarkMode := False\<rparr>\<rparr>"

section \<open>Reading the request body back\<close>

text \<open>
  A reader for the JSON text of an object with one field whose name and value are
  strings, following the grammar of JSON strings: the inverse of what \<^verbatim>\<open>JSON.stringify\<close>
  writes for \<^verbatim>\<open>{ target_url: targetUrl }\<close>. It serves to say what the body of the
  request holds. Of the \<^verbatim>\<open>\uXXXX\<close> escapes it decodes those below U+0080.
\<close>

definition hex_value :: "char \<Rightarrow> nat option" where
  "hex_value c =
     (let n = (of_char c :: nat) in
      if 48 \<le> n \<and> n \<le> 57 then Some (n - 48)
      else if 97 \<le> n \<and> n \<le> 102 then Some (n - 87)
      else if 65 \<le> n \<and> n \<le> 70 then Some (n - 55)
      else None)"

definition unescape :: "char \<Rightarrow> char option" where
  "unescape e =
     (if e = CHR 0x22 then Some (CHR 0x22)
      else if e = CHR 0x5C then Some (CHR 0x5C)
      else if e = CHR ''/'' then Some (CHR ''/'')
      else if e = CHR ''b'' then Some (CHR 0x08)
      else if e = CHR ''t'' then Some (CHR 0x09)
      else if e = CHR ''n'' then Some (CHR 0x0A)
      else if e = CHR ''f'' then Some (CHR 0x0C)
      else if e = CHR ''r'' then Some (CHR 0x0D)
      else None)"

definition code_unit :: "char \<Rightarrow> char \<Rightarrow> char \<Rightarrow> char \<Rightarrow> nat option" where
  "code_unit a b c d =
     (case (hex_value a, hex_value b, hex_value c, hex_value d) of
        (Some w, Some x, Some y, Some z) \<Rightarrow> Some (((w * 16 + x) * 16 + y) * 16 + z)
      | _ \<Rightarrow> None)"

definition prepend :: "char \<Rightarrow> (string \<times> string) option \<Rightarrow> (string \<times> string) option" where
  "prepend c p = (case p of None \<Rightarrow> None | Some (s, rest) \<Rightarrow> Some (c # s, rest))"

fun read_string_body :: "string \<Rightarrow> (string \<times> string) option" where
  "read_string_body [] = None"
| "read_string_body (c # cs) =
     (if c = CHR 0x22 then Some ([], cs)
      else if c = CHR 0x5C then
        (case cs of
           [] \<Rightarrow> None
         | e # r \<Rightarrow>
             if e = CHR ''u'' then
               (case r of
                  a # b # c' # d # r' \<Rightarrow>
                    (case code_unit a b c' d of
                       None \<Rightarrow> None
                     | Some n \<Rightarrow> if n < 128 then prepend (char_of n) (read_string_body r') else None)
                | _ \<Rightarrow> None)
             else
               (case unescape e of
                  None \<Rightarrow> None
                | Some x \<Rightarrow> prepend x (read_string_body r)))
      else if (of_char c :: nat) < 32 then None
      else prepend c (read_string_body cs))"

definition read_string :: "string \<Rightarrow> (string \<times> string) option" where
  "read_string s = (case s of c # cs \<Rightarrow> if c = CHR 0x22 then read_string_body cs else None | [] \<Rightarrow> None)"

definition read_single_field :: "string \<Rightarrow> (string \<times> string) option" where
  "read_single_field s =
     (case s of
        [] \<Rightarrow> None
      | c # cs \<Rightarrow>
          if c \<noteq> CHR ''{'' then None
          else (case read_string cs of
                  None \<Rightarrow> None
                | Some (k, rest) \<Rightarrow>
                    (case rest of
                       [] \<Rightarrow> None
                     | c' # rest' \<Rightarrow>
                         if c' \<noteq> CHR '':'' then None
                         else (case read_string rest' of
                                 None \<Rightarrow> None
                               | Some (v, rest'') \<Rightarrow> if rest'' = ''}'' then Some (k, v) else None))))"

section \<open>Reading a decimal numeral back\<close>

text \<open>
  The value of a non-empty string of decimal digits. It serves to say that the error
  message of a failed request ends with the status code in decimal.
\<close>

definition is_digit :: "char \<Rightarrow> bool" where
  "is_digit c = (48 \<le> (of_char c :: nat) \<and> (of_char c :: nat) \<le> 57)"

definition read_decimal :: "string \<Rightarrow> nat option" where
  "read_decimal s =
     (if s \<noteq> [] \<and> list_all is_digit s
      then Some (foldl (\<lambda>a c. 10 * a + ((of_char c :: nat) - 48)) 0 s)
      else None)"

section \<open>Reading UTF-8 back\<close>

text \<open>
  A strict UTF-8 decoder (no overlong forms, no surrogates, nothing above 0x10FFFF)
  and the UTF-16 code units of a scalar value. They serve to say which string the
  bytes of the downloaded file stand for.
\<close>

definition valid_scalar :: "nat \<Rightarrow> bool" where
  "valid_scalar c = (c < 0x110000 \<and> \<not> (0xD800 \<le> c \<and> c \<le> 0xDFFF))"

fun decode_from :: "nat \<Rightarrow> nat \<Rightarrow> nat \<Rightarrow> string \<Rightarrow> nat list option" where
  "decode_from 0 acc lo [] = Some []"
| "decode_from (Suc k) acc lo [] = None"
| "decode_from 0 acc lo (b # bs) =
     (if (of_char b :: nat) < 0x80 then map_option ((#) (of_char b)) (decode_from 0 0 0 bs)
      else if 0xC0 \<le> (of_char b :: nat) \<and> (of_char b :: nat) < 0xE0
        then decode_from (Suc 0) (of_char b - 0xC0) 0x80 bs
      else if 0xE0 \<le> (of_char b :: nat) \<and> (of_char b :: nat) < 0xF0
        then decode_from (Suc (Suc 0)) (of_char b - 0xE0) 0x800 bs
      else if 0xF0 \<le> (of_char b :: nat) \<and> (of_char b :: nat) < 0xF8
        then decode_from (Suc (Suc (Suc 0))) (of_char b - 0xF0) 0x10000 bs
      else None)"
| "decode_from (Suc k) acc lo (b # bs) =
     (if 0x80 \<le> (of_char b :: nat) \<and> (of_char b :: nat) \<le> 0xBF
      then (if k = 0
            then (if lo \<le> acc * 0x40 + (of_char b - 0x80)
                     \<and> valid_scalar (acc * 0x40 + (of_char b - 0x80))
                  then map_option ((#) (acc * 0x40 + (of_char b - 0x80))) (decode_from 0 0 0 bs)
                  else None)
            else decode_from k (acc * 0x40 + (of_char b - 0x80)) lo bs)
      else None)"

definition utf8_decode :: "string \<Rightarrow> nat list option" where
  "utf8_decode bs = decode_from 0 0 0 bs"

definition utf16 :: "nat \<Rightarrow> unit16 list" where
  "utf16 c =
     (if c < 0x10000 then [c]
      else [0xD800 + (c - 0x10000) div 0x400, 0xDC00 + (c - 0x10000) mod 0x400])"

definition utf16_of_utf8 :: "string \<Rightarrow> unit16 list option" where
  "utf16_of_utf8 bs = map_option (\<lambda>cs. concat (map utf16 cs)) (utf8_decode bs)"

section \<open>The scenarios of the specification\<close>

text \<open>
  Scenario A: the input \<^verbatim>\<open>https://example.com\<close>, answered with status 200 and the body
  \<^verbatim>\<open>{ "cloned_html": "<html><body>Hi</body></html>" }\<close>. Scenario C: an answer with
  status 500. Further answers have status 200 and the body \<^verbatim>\<open>{}\<close>, a body whose
  field has another name, a body that is not JSON, and the body \<^verbatim>\<open>null\<close>.
\<close>

definition example_panel :: panel where
  "example_panel = initial_panel\<lparr>targetUrl := ''https://example.com''\<rparr>"

definition example_html :: "unit16 list" where
  "example_html = ascii ''<html><body>Hi</body></html>''"

definition response_A :: response where
  "response_A = \<lparr> status = 200, json = Resolves (JObj [(''cloned_html'', JStr example_html)]) \<rparr>"

definition response_C :: response where
  "response_C =
     \<lparr> status = 500, json = Resolves (JObj [(''detail'', JStr (ascii ''Internal Server Error''))]) \<rparr>"

definition response_empty_object :: response where
  "response_empty_object = \<lparr> status = 200, json = Resolves (JObj []) \<rparr>"

definition response_wrong_field :: response where
  "response_wrong_field = \<lparr> status = 200, json = Resolves (JObj [(''html'', JStr example_html)]) \<rparr>"

definition response_not_json :: response where
  "response_not_json =
     \<lparr> status = 200, json = Rejects (ErrorInstance ''Unexpected end of JSON input'') \<rparr>"

definition response_null :: response where
  "response_null = \<lparr> status = 200, json = Resolves JNull \<rparr>"

text \<open>
  Two runs of the panel: a submission that is answered as in scenario A, with the theme
  toggled while the request is in flight, and a submission that is still in flight.
\<close>

definition example_events :: "event list" where
  "example_events =
     [ChangeUrl ''https://example.com'', Submit, ToggleTheme,
      FetchSettles 0 (Resolves (response_A\<lparr>json := Pending\<rparr>)),
      JsonSettles 0 (json response_A)]"

definition in_flight_events :: "event list" where
  "in_flight_events = [ChangeUrl ''https://example.com'', Submit]"

definition example_browser :: browser where
  "example_browser =
     \<lparr> object_urls = [(3, new_Blob (ascii ''older'') ''text/plain'')], body_children = [1, 7],
       downloads = [] \<rparr>"

text \<open>
  Two further results: a string of U+00E9, U+1F600 (a surrogate pair) and U+20AC; and
  the string that the JSON text \<^verbatim>\<open>"\ud800x"\<close> stands for, a surrogate that stands alone
  before the letter x.
\<close>

definition accented_html :: "unit16 list" where
  "accented_html = [0x00E9, 0xD83D, 0xDE00, 0x20AC]"

definition lone_surrogate_html :: "unit16 list" where
  "lone_surrogate_html = [0xD800, 0x78]"

section \<open>Basic facts about effects\<close>

lemma run_effects_Nil [simp]: "run_effects s [] = s"
  by (simp add: run_effects_def)

lemma run_effects_Cons [simp]: "run_effects s (e # es) = run_effects (apply_effect s e) es"
  by (simp add: run_effects_def)

lemma run_effects_append [simp]:
  "run_effects s (es @ es') = run_effects (run_effects s es) es'"
  by (simp add: run_effects_def)

lemma requests_of_append [simp]: "requests_of (es @ es') = requests_of es @ requests_of es'"
  by (induction es rule: requests_of.induct) simp_all

text \<open>The ways in which the rest of the \<^verbatim>\<open>try\<close> block can end.\<close>

lemma after_json_cases:
  "after_json j = ([], Suspend AwaitJson) \<and> j = Pending
   \<or> (\<exists>err. after_json j = ([], Throw err))
   \<or> (\<exists>v. after_json j = ([SetClonedHtml v], Normal))"
  by (auto simp: after_json_def split: settle.splits sum.splits)

lemma after_fetch_cases:
  "after_fetch f = ([], Suspend AwaitFetch) \<and> f = Pending
   \<or> after_fetch f = ([], Suspend AwaitJson)
   \<or> (\<exists>err. after_fetch f = ([], Throw err))
   \<or> (\<exists>v. after_fetch f = ([SetClonedHtml v], Normal))"
  using after_json_cases by (auto simp: after_fetch_def split: settle.splits)

section \<open>The shape of a run of the submit handler\<close>

lemma handleSubmit_Pending:
  "handleSubmit s Pending =
     [PreventDefault, SetLoading True, SetError None, SetClonedHtml JNull,
      Fetch (clone_request (targetUrl s))]"
  by (simp add: handleSubmit_def prologue_def try_block_def after_fetch_def catch_finally_def)

lemma handleSubmit_split:
  "handleSubmit s f = handleSubmit s Pending @ catch_finally (after_fetch f)"
  by (simp add: handleSubmit_def prologue_def try_block_def after_fetch_def catch_finally_def
      split: prod.splits)

lemma catch_finally_Throw:
  "catch_finally ([], Throw err) =
     [SetError (Some (case err of ErrorInstance m \<Rightarrow> m
                                 | OtherThrown v \<Rightarrow> ''An error occurred'')),
      ConsoleError ''Error cloning website:'' err, SetLoading False]"
  by (simp add: catch_finally_def catch_block_def finally_block_def)

lemma catch_finally_Normal: "catch_finally (es, Normal) = es @ [SetLoading False]"
  by (simp add: catch_finally_def finally_block_def)

lemma catch_finally_Suspend: "catch_finally ([], Suspend k) = []"
  by (simp add: catch_finally_def)

lemma handleSubmit_cases:
  "handleSubmit s (Rejects err) = handleSubmit s Pending @ catch_finally ([], Throw err)"
  "\<not> ok r \<Longrightarrow>
     handleSubmit s (Resolves r) =
       handleSubmit s Pending @
       catch_finally
         ([], Throw (ErrorInstance (''HTTP error! status: '' @ string_of_nat (status r))))"
  "ok r \<Longrightarrow> json r = Pending \<Longrightarrow> handleSubmit s (Resolves r) = handleSubmit s Pending"
  "ok r \<Longrightarrow> json r = Rejects err \<Longrightarrow>
     handleSubmit s (Resolves r) = handleSubmit s Pending @ catch_finally ([], Throw err)"
  "ok r \<Longrightarrow> json r = Resolves data \<Longrightarrow> get_cloned_html data = Inl err \<Longrightarrow>
     handleSubmit s (Resolves r) = handleSubmit s Pending @ catch_finally ([], Throw err)"
  "ok r \<Longrightarrow> json r = Resolves data \<Longrightarrow> get_cloned_html data = Inr v \<Longrightarrow>
     handleSubmit s (Resolves r) =
       handleSubmit s Pending @ catch_finally ([SetClonedHtml v], Normal)"
  by (simp_all add: handleSubmit_split [of s "Rejects err"]
      handleSubmit_split [of s "Resolves r"] after_fetch_def after_json_def
      catch_finally_Suspend)

lemma requests_of_handleSubmit:
  "requests_of (handleSubmit s f) = [clone_request (targetUrl s)]"
  using after_fetch_cases [of f]
  by (auto simp: handleSubmit_split [of s f] handleSubmit_Pending catch_finally_Throw
      catch_finally_Normal catch_finally_Suspend)

lemma render_lifecycle:
  "input_disabled (render s) = loading s"
  "submit_disabled (render s) = loading s"
  "clonedHtml s = JNull \<Longrightarrow> result (render s) = NoResult"
  "error s = None \<Longrightarrow> error_box (render s) = None"
  by (auto simp: render_def render_result_def)

text \<open>Reading a field that is not there gives \<^verbatim>\<open>undefined\<close>.\<close>

lemma get_property_missing:
  assumes "k \<notin> fst ` set fs"
  shows "get_property fs k = JUndefined"
proof -
  from assms have "map_of (rev fs) k = None"
    by (simp add: map_of_eq_None_iff)
  then show ?thesis by (simp add: get_property_def)
qed

lemma get_cloned_html_lacking:
  assumes "lacks_cloned_html data" and "data \<noteq> JNull" and "data \<noteq> JUndefined"
  shows "get_cloned_html data = Inr JUndefined"
  using assms by (cases data) (simp_all add: get_property_missing)

section \<open>The invariant holds in every reachable state\<close>

lemma inv_initial: "lifecycle_inv initial_sys"
  by (simp add: lifecycle_inv_def initial_sys_def initial_panel_def)

lemma inv_resume:
  assumes "lifecycle_inv t" and "i < length (suspended t)"
    and "ec = ([], Suspend AwaitJson) \<or> (\<exists>err. ec = ([], Throw err))
         \<or> (\<exists>v. ec = ([SetClonedHtml v], Normal))"
  shows "lifecycle_inv (resume t i ec)"
  using assms
  by (auto simp: lifecycle_inv_def resume_def catch_finally_def catch_block_def
      finally_block_def)

lemma inv_step:
  assumes "lifecycle_inv t" and "step t e = Some t'"
  shows "lifecycle_inv t'"
proof (cases e)
  case Submit
  with assms show ?thesis
    by (auto simp: lifecycle_inv_def render_def handleSubmit_def prologue_def try_block_def
        after_fetch_def catch_finally_def split: if_splits)
next
  case (FetchSettles i f)
  with assms after_fetch_cases [of f] show ?thesis
    by (auto split: if_splits intro!: inv_resume)
next
  case (JsonSettles i j)
  with assms after_json_cases [of j] show ?thesis
    by (auto split: if_splits intro!: inv_resume)
next
  case ToggleTheme
  with assms show ?thesis
    by (auto simp: lifecycle_inv_def toggleTheme_def)
next
  case ToggleRawHtml
  with assms show ?thesis
    by (auto simp: lifecycle_inv_def toggleRawHtml_def split: result_slot.splits)
next
  case (ChangeUrl v)
  with assms show ?thesis
    by (auto simp: lifecycle_inv_def changeUrl_def split: if_splits)
qed

lemma inv_dispatch: "lifecycle_inv t \<Longrightarrow> lifecycle_inv (dispatch t e)"
  by (auto simp: dispatch_def dest: inv_step split: option.splits)

lemma inv_dispatch_all: "lifecycle_inv t \<Longrightarrow> lifecycle_inv (dispatch_all t es)"
  unfolding dispatch_all_def
  by (induction es arbitrary: t) (simp_all add: inv_dispatch)

lemma inv_reachable: "lifecycle_inv (dispatch_all initial_sys es)"
  by (rule inv_dispatch_all [OF inv_initial])

lemma step_ToggleRawHtml:
  "step t ToggleRawHtml =
     (if truthy (clonedHtml (page t)) then Some (t\<lparr>page := toggleRawHtml (page t)\<rparr>)
      else None)"
  by (auto simp: render_def render_result_def split: jsval.splits)

text \<open>
  A submission in an idle state followed by the settling of its request is a run of
  \<^verbatim>\<open>handleSubmit\<close> against that answer.
\<close>

lemma dispatch_submit_settle:
  assumes "\<not> loading (page t)" and "suspended t = []" and "f \<noteq> Pending"
  shows "dispatch_all t [Submit, FetchSettles 0 f] =
           \<lparr> page = run_effects (page t) (handleSubmit (page t) f),
             suspended = (case snd (after_fetch f) of Suspend k \<Rightarrow> [k] | _ \<Rightarrow> []),
             sent = sent t @ [clone_request (targetUrl (page t))] \<rparr>"
proof -
  have s1: "dispatch t Submit =
      \<lparr> page = run_effects (page t) (handleSubmit (page t) Pending),
        suspended = [AwaitFetch],
        sent = sent t @ [clone_request (targetUrl (page t))] \<rparr>"
    using assms(1,2)
    by (simp add: dispatch_def render_lifecycle requests_of_handleSubmit del: run_effects_append)
  have rq: "requests_of (catch_finally (after_fetch f)) = []"
    using requests_of_handleSubmit [of "page t" f]
    by (simp add: handleSubmit_split [of "page t" f] handleSubmit_Pending)
  have "dispatch (dispatch t Submit) (FetchSettles 0 f) =
      \<lparr> page = run_effects (page t) (handleSubmit (page t) f),
        suspended = (case snd (after_fetch f) of Suspend k \<Rightarrow> [k] | _ \<Rightarrow> []),
        sent = sent t @ [clone_request (targetUrl (page t))] \<rparr>"
    unfolding s1 using assms(3)
    by (cases "snd (after_fetch f)")
      (simp_all add: dispatch_def resume_def rq handleSubmit_split [of "page t" f])
  then show ?thesis
    by (simp add: dispatch_all_def)
qed

section \<open>The two variants of the page\<close>

lemma handleSubmit_plain_eq:
  assumes "targetUrl_plain q = targetUrl s"
  shows "handleSubmit_plain q f = handleSubmit s f"
proof (cases f)
  case Pending
  then show ?thesis
    using assms by (simp add: handleSubmit_plain_def handleSubmit_Pending clone_request_def)
next
  case (Rejects err)
  then show ?thesis
    using assms
    by (simp add: handleSubmit_plain_def handleSubmit_cases(1) handleSubmit_Pending
        clone_request_def catch_finally_Throw)
next
  case (Resolves r)
  show ?thesis
  proof (cases "ok r")
    case False
    with Resolves assms show ?thesis
      by (simp add: handleSubmit_plain_def handleSubmit_cases(2) handleSubmit_Pending
          clone_request_def catch_finally_Throw)
  next
    case True
    show ?thesis
    proof (cases "json r")
      case Pending
      with True Resolves assms show ?thesis
        by (simp add: handleSubmit_plain_def handleSubmit_cases(3) handleSubmit_Pending
            clone_request_def)
    next
      case (Rejects err)
      with True Resolves assms show ?thesis
        by (simp add: handleSubmit_plain_def handleSubmit_cases(4) handleSubmit_Pending
            clone_request_def catch_finally_Throw)
    next
      case data: (Resolves data)
      show ?thesis
      proof (cases "get_cloned_html data")
        case (Inl err)
        with True Resolves data assms show ?thesis
          by (simp add: handleSubmit_plain_def handleSubmit_cases(5) handleSubmit_Pending
              clone_request_def catch_finally_Throw)
      next
        case (Inr v)
        with True Resolves data assms show ?thesis
          by (simp add: handleSubmit_plain_def handleSubmit_cases(6) handleSubmit_Pending
              clone_request_def catch_finally_Normal)
      qed
    qed
  qed
qed

lemma apply_effect_plain_of: "apply_effect_plain (plain_of s) e = plain_of (apply_effect s e)"
  by (cases e) (simp_all add: plain_of_def)

lemma run_effects_plain_of: "run_effects_plain (plain_of s) es = plain_of (run_effects s es)"
  by (induction es arbitrary: s) (simp_all add: run_effects_plain_def apply_effect_plain_of)

lemma settle_plain_of: "settle_plain (plain_of s) f = catch_finally (after_fetch f)"
proof -
  have u: "targetUrl_plain (plain_of s) = targetUrl s"
    by (simp add: plain_of_def)
  show ?thesis
    unfolding settle_plain_def handleSubmit_plain_eq [OF u]
    by (simp add: handleSubmit_split [of s f])
qed

lemma awaits_after_fetch:
  "awaits_plain f = (case snd (after_fetch f) of Suspend k \<Rightarrow> Some k | _ \<Rightarrow> None)"
  by (auto simp: awaits_plain_def after_fetch_def after_json_def split: settle.splits sum.splits)

lemma resume_plain_project:
  "resume_plain (project t) i f = project (resume t i (after_fetch f))"
  by (cases "snd (after_fetch f)")
    (simp_all add: resume_plain_def resume_def project_def settle_plain_of run_effects_plain_of
      awaits_after_fetch)

lemma after_fetch_ok_json: "after_fetch (Resolves \<lparr> status = 200, json = j \<rparr>) = after_json j"
  by (simp add: after_fetch_def ok_def)

lemma step_plain_project: "step_plain (project t) e = map_option project (step t (embed e))"
proof (cases e)
  case Submit_plain
  have u: "targetUrl_plain (plain_of (page t)) = targetUrl (page t)"
    by (simp add: plain_of_def)
  have p: "page_plain (project t) = plain_of (page t)" "suspended_plain (project t) = suspended t"
    "sent_plain (project t) = sent t"
    by (simp_all add: project_def)
  have d: "submit_disabled_plain (render_plain (plain_of (page t))) = submit_disabled (render (page t))"
    by (simp add: render_plain_def render_def plain_of_def)
  show ?thesis
    unfolding Submit_plain embed.simps step.simps step_plain.simps p d handleSubmit_plain_eq [OF u]
    by (simp add: project_def run_effects_plain_of)
next
  case (FetchSettles_plain i f)
  have p: "suspended_plain (project t) = suspended t"
    by (simp add: project_def)
  show ?thesis
    unfolding FetchSettles_plain by (simp add: p resume_plain_project)
next
  case (JsonSettles_plain i j)
  have p: "suspended_plain (project t) = suspended t"
    by (simp add: project_def)
  show ?thesis
    unfolding JsonSettles_plain
    by (simp add: p resume_plain_project after_fetch_ok_json)
next
  case (ChangeUrl_plain v)
  show ?thesis
    unfolding ChangeUrl_plain
    by (simp add: project_def render_plain_def render_def plain_of_def changeUrl_def)
qed

lemma dispatch_plain_project: "dispatch_plain (project t) e = project (dispatch t (embed e))"
  by (cases "step t (embed e)") (simp_all add: dispatch_plain_def dispatch_def step_plain_project)

lemma dispatch_all_plain_project:
  "dispatch_all_plain (project t) es = project (dispatch_all t (map embed es))"
  unfolding dispatch_all_plain_def dispatch_all_def
  by (induction es arbitrary: t) (simp_all add: dispatch_plain_project)

lemma project_initial: "project initial_sys = initial_sys_plain"
  by (simp add: project_def initial_sys_def initial_sys_plain_def plain_of_def initial_panel_def
      initial_panel_plain_def)

lemma reachable_plain:
  "dispatch_all_plain initial_sys_plain es = project (dispatch_all initial_sys (map embed es))"
  using dispatch_all_plain_project [of initial_sys es] by (simp add: project_initial)

text \<open>
  Every state of the variant without the theme toggle is what it keeps of some state
  of the other one, on which its handler issues the same effects.
\<close>

lemma themed_of_plain: "\<exists>s. plain_of s = q"
proof
  show "plain_of \<lparr> targetUrl = targetUrl_plain q, loading = loading_plain q,
      clonedHtml = clonedHtml_plain q, error = error_plain q, showRawHtml = False,
      isDarkMode = False \<rparr> = q"
    by (simp add: plain_of_def)
qed

lemma handleSubmit_plain_of: "handleSubmit_plain (plain_of s) f = handleSubmit s f"
  by (rule handleSubmit_plain_eq) (simp add: plain_of_def)

lemma run_handleSubmit_plain:
  "run_effects_plain (plain_of s) (handleSubmit_plain (plain_of s) f) =
     plain_of (run_effects s (handleSubmit s f))"
  by (simp add: handleSubmit_plain_of run_effects_plain_of)

lemma run_plain_transfer:
  assumes "\<And>s. run_effects s (handleSubmit s f) = s\<lparr>loading := l, error := e, clonedHtml := c\<rparr>"
  shows "run_effects_plain q (handleSubmit_plain q f) =
           q\<lparr>loading_plain := l, error_plain := e, clonedHtml_plain := c\<rparr>"
proof -
  obtain s where q: "plain_of s = q"
    using themed_of_plain ..
  have "run_effects_plain q (handleSubmit_plain q f) = plain_of (run_effects s (handleSubmit s f))"
    using run_handleSubmit_plain [of s f] by (simp add: q)
  also have "\<dots> = q\<lparr>loading_plain := l, error_plain := e, clonedHtml_plain := c\<rparr>"
    unfolding assms q [symmetric] by (simp add: plain_of_def)
  finally show ?thesis .
qed

text \<open>
  Result and error are not both set at any point during a run of the handler either.
\<close>

lemma exclusive_prefix:
  assumes "clonedHtml s = JNull \<or> error s = None"
  shows "clonedHtml (run_effects s (take n (handleSubmit s f))) = JNull
         \<or> error (run_effects s (take n (handleSubmit s f))) = None"
proof -
  from after_fetch_cases [of f] show ?thesis
  proof (elim disjE exE conjE)
    assume "after_fetch f = ([], Suspend AwaitFetch)"
    then have "handleSubmit s f = prologue @ [Fetch (clone_request (targetUrl s))]"
      by (simp add: handleSubmit_split [of s f] handleSubmit_Pending catch_finally_Suspend prologue_def)
    with assms show ?thesis
      by (auto simp: prologue_def take_Cons')
  next
    assume "after_fetch f = ([], Suspend AwaitJson)"
    then have "handleSubmit s f = prologue @ [Fetch (clone_request (targetUrl s))]"
      by (simp add: handleSubmit_split [of s f] handleSubmit_Pending catch_finally_Suspend prologue_def)
    with assms show ?thesis
      by (auto simp: prologue_def take_Cons')
  next
    fix err assume "after_fetch f = ([], Throw err)"
    then have "handleSubmit s f = prologue @ Fetch (clone_request (targetUrl s)) # catch_block err @ finally_block"
      by (simp add: handleSubmit_split [of s f] handleSubmit_Pending catch_finally_def prologue_def)
    with assms show ?thesis
      by (auto simp: prologue_def catch_block_def finally_block_def take_Cons')
  next
    fix v assume "after_fetch f = ([SetClonedHtml v], Normal)"
    then have "handleSubmit s f = prologue @ Fetch (clone_request (targetUrl s)) # SetClonedHtml v # finally_block"
      by (simp add: handleSubmit_split [of s f] handleSubmit_Pending catch_finally_def prologue_def)
    with assms show ?thesis
      by (auto simp: prologue_def finally_block_def take_Cons')
  qed
qed

lemma inv_reachable_plain:
  "length (suspended_plain (dispatch_all_plain initial_sys_plain es)) \<le> 1
   \<and> loading_plain (page_plain (dispatch_all_plain initial_sys_plain es)) =
       (suspended_plain (dispatch_all_plain initial_sys_plain es) \<noteq> [])
   \<and> (clonedHtml_plain (page_plain (dispatch_all_plain initial_sys_plain es)) = JNull
       \<or> error_plain (page_plain (dispatch_all_plain initial_sys_plain es)) = None)"
  using inv_reachable [of "map embed es"]
  by (simp add: reachable_plain project_def plain_of_def lifecycle_inv_def)

section \<open>The body of the request reads back as the URL\<close>

lemma hex_value_hex_digit: "d < 16 \<Longrightarrow> hex_value (hex_digit d) = Some d"
  by (auto simp: hex_value_def hex_digit_def Let_def)

lemma code_unit_control:
  assumes "n < 32"
  shows "code_unit (CHR ''0'') (CHR ''0'') (hex_digit (n div 16)) (hex_digit (n mod 16)) = Some n"
proof -
  have "n div 16 < 16" using assms by simp
  then have a: "hex_value (hex_digit (n div 16)) = Some (n div 16)"
    by (rule hex_value_hex_digit)
  have b: "hex_value (hex_digit (n mod 16)) = Some (n mod 16)"
    by (rule hex_value_hex_digit) simp
  have z: "hex_value (CHR ''0'') = Some 0"
    by (simp add: hex_value_def)
  show ?thesis
    by (simp add: code_unit_def a b z)
qed

lemma read_quote_char:
  "read_string_body (quote_char c @ xs) = prepend c (read_string_body xs)"
proof -
  consider (special) "c \<in> {CHR 0x22, CHR 0x5C, CHR 0x08, CHR 0x09, CHR 0x0A, CHR 0x0C, CHR 0x0D}"
    | (control) "c \<notin> {CHR 0x22, CHR 0x5C, CHR 0x08, CHR 0x09, CHR 0x0A, CHR 0x0C, CHR 0x0D}"
        "(of_char c :: nat) < 32"
    | (plain) "c \<notin> {CHR 0x22, CHR 0x5C, CHR 0x08, CHR 0x09, CHR 0x0A, CHR 0x0C, CHR 0x0D}"
        "\<not> (of_char c :: nat) < 32"
    by blast
  then show ?thesis
  proof cases
    case special
    then show ?thesis
      by (auto simp: quote_char_def unescape_def)
  next
    case control
    then have q: "quote_char c =
        [CHR 0x5C, CHR ''u'', CHR ''0'', CHR ''0'',
         hex_digit ((of_char c :: nat) div 16), hex_digit ((of_char c :: nat) mod 16)]"
      by (simp add: quote_char_def)
    show ?thesis
      using control(2) by (simp add: q code_unit_control)
  next
    case plain
    then show ?thesis
      by (simp add: quote_char_def)
  qed
qed

lemma read_string_body_quoted:
  "read_string_body (concat (map quote_char s) @ CHR 0x22 # rest) = Some (s, rest)"
  by (induction s) (simp_all add: read_quote_char prepend_def del: read_string_body.simps(2), simp)

lemma read_string_JSON_quote: "read_string (JSON_quote s @ rest) = Some (s, rest)"
  using read_string_body_quoted [of s rest] by (simp add: read_string_def JSON_quote_def)

lemma read_single_field_stringify:
  "read_single_field (stringify_target_url url) = Some (''target_url'', url)"
proof -
  have 1: "read_string (JSON_quote ''target_url'' @ CHR '':'' # JSON_quote url @ ''}'')
      = Some (''target_url'', CHR '':'' # JSON_quote url @ ''}'')"
    by (rule read_string_JSON_quote)
  have 2: "read_string (JSON_quote url @ ''}'') = Some (url, ''}'')"
    by (rule read_string_JSON_quote)
  have "stringify_target_url url = CHR ''{'' # JSON_quote ''target_url'' @ CHR '':'' # JSON_quote url @ ''}''"
    by (simp add: stringify_target_url_def)
  then show ?thesis
    by (simp add: read_single_field_def 1 2 del: read_string_body.simps)
qed

section \<open>The order of the side effects of a submission\<close>

text \<open>
  Claim C1, as stated, fails where it says that every failure stores a message in the
  error cell: a response with status 200 whose body has the HTML under another name
  lacks the \<^verbatim>\<open>cloned_html\<close> field, which the specification counts among the failures,
  and the run stores \<^verbatim>\<open>undefined\<close> in the result and no error at all.
\<close>

theorem unchecked_field_counterexample:
  "ok response_wrong_field
   \<and> json response_wrong_field = Resolves (JObj [(''html'', JStr example_html)])
   \<and> lacks_cloned_html (JObj [(''html'', JStr example_html)])
   \<and> handleSubmit example_panel (Resolves response_wrong_field) =
       [PreventDefault, SetLoading True, SetError None, SetClonedHtml JNull,
        Fetch (clone_request ''https://example.com''),
        SetClonedHtml JUndefined, SetLoading False]
   \<and> error (run_effects example_panel
        (handleSubmit example_panel (Resolves response_wrong_field))) = None"
  by code_simp

text \<open>
  Claim C1, amended. A run of \<^verbatim>\<open>handleSubmit\<close> begins with: loading set to true, the
  error cleared, the result cleared, one POST request to
  \<^verbatim>\<open>http://localhost:8000/clone\<close> whose body is the JSON text of an object with the
  single field \<^verbatim>\<open>target_url\<close> holding the URL. Up to there the state has loading true
  and both result and error empty, whatever they were before. Exactly one request is
  issued, however the network answers. A run that goes on after the request ends
  with loading set to false. In between: when the response has a 2xx status and its
  body is a JSON value other than \<^verbatim>\<open>null\<close>, the value of its \<^verbatim>\<open>cloned_html\<close> field is
  stored in the result, which is \<^verbatim>\<open>undefined\<close> when the body lacks the field, and no
  error is stored; when the request is rejected, the status is not 2xx, the body
  does not parse or the body is \<^verbatim>\<open>null\<close>, the message of the error is stored in the
  error cell. The handler of the variant without the theme toggle issues the same
  effects.
\<close>

theorem handleSubmit_order:
  "handleSubmit s Pending =
     [PreventDefault, SetLoading True, SetError None, SetClonedHtml JNull,
      Fetch \<lparr> endpoint = ''http://localhost:8000/clone'', http_method = ''POST'',
              headers = [(''Content-Type'', ''application/json'')],
              body = stringify_target_url (targetUrl s) \<rparr>]
   \<and> read_single_field (stringify_target_url (targetUrl s)) = Some (''target_url'', targetUrl s)
   \<and> run_effects s (handleSubmit s Pending) =
       s\<lparr>loading := True, error := None, clonedHtml := JNull\<rparr>
   \<and> requests_of (handleSubmit s f) =
       [\<lparr> endpoint = ''http://localhost:8000/clone'', http_method = ''POST'',
          headers = [(''Content-Type'', ''application/json'')],
          body = stringify_target_url (targetUrl s) \<rparr>]
   \<and> (handleSubmit s f = handleSubmit s Pending
        \<or> (\<exists>mid. handleSubmit s f = handleSubmit s Pending @ mid @ [SetLoading False]))
   \<and> handleSubmit s (Rejects err) =
        handleSubmit s Pending @
        [SetError (Some (case err of ErrorInstance m \<Rightarrow> m
                                    | OtherThrown v \<Rightarrow> ''An error occurred'')),
         ConsoleError ''Error cloning website:'' err, SetLoading False]
   \<and> (\<not> ok r \<longrightarrow>
        handleSubmit s (Resolves r) =
          handleSubmit s Pending @
          [SetError (Some (''HTTP error! status: '' @ string_of_nat (status r))),
           ConsoleError ''Error cloning website:''
             (ErrorInstance (''HTTP error! status: '' @ string_of_nat (status r))),
           SetLoading False])
   \<and> (ok r \<and> json r = Rejects err \<longrightarrow>
        handleSubmit s (Resolves r) =
          handleSubmit s Pending @
          [SetError (Some (case err of ErrorInstance m \<Rightarrow> m
                                      | OtherThrown v \<Rightarrow> ''An error occurred'')),
           ConsoleError ''Error cloning website:'' err, SetLoading False])
   \<and> (ok r \<and> json r = Resolves data \<and> get_cloned_html data = Inl err \<longrightarrow>
        handleSubmit s (Resolves r) =
          handleSubmit s Pending @
          [SetError (Some (case err of ErrorInstance m \<Rightarrow> m
                                      | OtherThrown v \<Rightarrow> ''An error occurred'')),
           ConsoleError ''Error cloning website:'' err, SetLoading False])
   \<and> (ok r \<and> json r = Resolves data \<and> get_cloned_html data = Inr v \<longrightarrow>
        handleSubmit s (Resolves r) =
          handleSubmit s Pending @ [SetClonedHtml v, SetLoading False])
   \<and> (ok r \<and> json r = Resolves JNull \<longrightarrow>
        handleSubmit s (Resolves r) =
          handleSubmit s Pending @
          [SetError (Some (cannot_read ''null'')),
           ConsoleError ''Error cloning website:'' (ErrorInstance (cannot_read ''null'')),
           SetLoading False])
   \<and> (ok r \<and> json r = Resolves data \<and> lacks_cloned_html data
        \<and> data \<noteq> JNull \<and> data \<noteq> JUndefined \<longrightarrow>
        handleSubmit s (Resolves r) =
          handleSubmit s Pending @ [SetClonedHtml JUndefined, SetLoading False])
   \<and> handleSubmit_plain (plain_of s) f = handleSubmit s f"
proof -
  have start: "handleSubmit s Pending =
     [PreventDefault, SetLoading True, SetError None, SetClonedHtml JNull,
      Fetch \<lparr> endpoint = ''http://localhost:8000/clone'', http_method = ''POST'',
              headers = [(''Content-Type'', ''application/json'')],
              body = stringify_target_url (targetUrl s) \<rparr>]"
    by (simp add: handleSubmit_Pending clone_request_def)
  have payload: "read_single_field (stringify_target_url (targetUrl s)) =
      Some (''target_url'', targetUrl s)"
    by (rule read_single_field_stringify)
  have reqs: "requests_of (handleSubmit s f) =
       [\<lparr> endpoint = ''http://localhost:8000/clone'', http_method = ''POST'',
          headers = [(''Content-Type'', ''application/json'')],
          body = stringify_target_url (targetUrl s) \<rparr>]"
    using requests_of_handleSubmit [of s f] by (simp add: clone_request_def)
  have shape: "handleSubmit s f = handleSubmit s Pending
        \<or> (\<exists>mid. handleSubmit s f = handleSubmit s Pending @ mid @ [SetLoading False])"
    using after_fetch_cases [of f]
    by (auto simp: handleSubmit_split [of s f] catch_finally_Throw
        catch_finally_Normal catch_finally_Suspend)
  have null: "handleSubmit s (Resolves r) =
          handleSubmit s Pending @
          [SetError (Some (cannot_read ''null'')),
           ConsoleError ''Error cloning website:'' (ErrorInstance (cannot_read ''null'')),
           SetLoading False]" if "ok r" "json r = Resolves JNull"
    using that handleSubmit_cases(5) [of r JNull "ErrorInstance (cannot_read ''null'')" s]
    by (simp add: catch_finally_Throw)
  have lacking: "handleSubmit s (Resolves r) =
          handleSubmit s Pending @ [SetClonedHtml JUndefined, SetLoading False]"
    if "ok r" "json r = Resolves data" "lacks_cloned_html data" "data \<noteq> JNull"
      "data \<noteq> JUndefined"
    using that handleSubmit_cases(6) [of r data JUndefined s]
    by (simp add: get_cloned_html_lacking catch_finally_Normal)
  have rest: "handleSubmit s (Rejects err) =
        handleSubmit s Pending @
        [SetError (Some (case err of ErrorInstance m \<Rightarrow> m
                                    | OtherThrown v \<Rightarrow> ''An error occurred'')),
         ConsoleError ''Error cloning website:'' err, SetLoading False]
   \<and> (\<not> ok r \<longrightarrow>
        handleSubmit s (Resolves r) =
          handleSubmit s Pending @
          [SetError (Some (''HTTP error! status: '' @ string_of_nat (status r))),
           ConsoleError ''Error cloning website:''
             (ErrorInstance (''HTTP error! status: '' @ string_of_nat (status r))),
           SetLoading False])
   \<and> (ok r \<and> json r = Rejects err \<longrightarrow>
        handleSubmit s (Resolves r) =
          handleSubmit s Pending @
          [SetError (Some (case err of ErrorInstance m \<Rightarrow> m
                                      | OtherThrown v \<Rightarrow> ''An error occurred'')),
           ConsoleError ''Error cloning website:'' err, SetLoading False])
   \<and> (ok r \<and> json r = Resolves data \<and> get_cloned_html data = Inl err \<longrightarrow>
        handleSubmit s (Resolves r) =
          handleSubmit s Pending @
          [SetError (Some (case err of ErrorInstance m \<Rightarrow> m
                                      | OtherThrown v \<Rightarrow> ''An error occurred'')),
           ConsoleError ''Error cloning website:'' err, SetLoading False])
   \<and> (ok r \<and> json r = Resolves data \<and> get_cloned_html data = Inr v \<longrightarrow>
        handleSubmit s (Resolves r) =
          handleSubmit s Pending @ [SetClonedHtml v, SetLoading False])"
    using
      handleSubmit_cases(1) [where s = s and err = err]
      handleSubmit_cases(2) [where s = s and r = r]
      handleSubmit_cases(4) [where s = s and r = r and err = err]
      handleSubmit_cases(5) [where s = s and r = r and data = data and err = err]
      handleSubmit_cases(6) [where s = s and r = r and data = data and v = v]
    by (simp add: catch_finally_Throw catch_finally_Normal)
  have pending_state: "run_effects s (handleSubmit s Pending) =
       s\<lparr>loading := True, error := None, clonedHtml := JNull\<rparr>"
    by (simp add: handleSubmit_Pending)
  have plain: "handleSubmit_plain (plain_of s) f = handleSubmit s f"
    by (rule handleSubmit_plain_of)
  from start payload pending_state reqs shape rest null lacking plain
  show ?thesis
    by (intro conjI impI) blast+
qed

theorem handleSubmit_order_witness:
  "ok response_A
   \<and> json response_A = Resolves (JObj [(''cloned_html'', JStr example_html)])
   \<and> get_cloned_html (JObj [(''cloned_html'', JStr example_html)]) = Inr (JStr example_html)
   \<and> handleSubmit example_panel (Resolves response_A) =
       [PreventDefault, SetLoading True, SetError None, SetClonedHtml JNull,
        Fetch (clone_request ''https://example.com''),
        SetClonedHtml (JStr example_html), SetLoading False]
   \<and> read_single_field (body (clone_request ''https://example.com'')) =
       Some (''target_url'', ''https://example.com'')
   \<and> \<not> ok response_C
   \<and> handleSubmit example_panel (Resolves response_C) =
       [PreventDefault, SetLoading True, SetError None, SetClonedHtml JNull,
        Fetch (clone_request ''https://example.com''),
        SetError (Some ''HTTP error! status: 500''),
        ConsoleError ''Error cloning website:'' (ErrorInstance ''HTTP error! status: 500''),
        SetLoading False]
   \<and> ok response_not_json
   \<and> json response_not_json = Rejects (ErrorInstance ''Unexpected end of JSON input'')
   \<and> handleSubmit example_panel (Resolves response_not_json) =
       [PreventDefault, SetLoading True, SetError None, SetClonedHtml JNull,
        Fetch (clone_request ''https://example.com''),
        SetError (Some ''Unexpected end of JSON input''),
        ConsoleError ''Error cloning website:'' (ErrorInstance ''Unexpected end of JSON input''),
        SetLoading False]
   \<and> ok response_null
   \<and> json response_null = Resolves JNull
   \<and> get_cloned_html JNull = Inl (ErrorInstance (cannot_read ''null''))
   \<and> handleSubmit example_panel (Resolves response_null) =
       [PreventDefault, SetLoading True, SetError None, SetClonedHtml JNull,
        Fetch (clone_request ''https://example.com''),
        SetError (Some (cannot_read ''null'')),
        ConsoleError ''Error cloning website:'' (ErrorInstance (cannot_read ''null'')),
        SetLoading False]
   \<and> ok response_empty_object
   \<and> json response_empty_object = Resolves (JObj [])
   \<and> lacks_cloned_html (JObj [])
   \<and> handleSubmit example_panel (Resolves response_empty_object) =
       [PreventDefault, SetLoading True, SetError None, SetClonedHtml JNull,
        Fetch (clone_request ''https://example.com''),
        SetClonedHtml JUndefined, SetLoading False]"
proof -
  have hyps:
    "ok response_A" "json response_A = Resolves (JObj [(''cloned_html'', JStr example_html)])"
    "get_cloned_html (JObj [(''cloned_html'', JStr example_html)]) = Inr (JStr example_html)"
    "\<not> ok response_C" "ok response_not_json"
    "json response_not_json = Rejects (ErrorInstance ''Unexpected end of JSON input'')"
    "ok response_null" "json response_null = Resolves JNull"
    "get_cloned_html JNull = Inl (ErrorInstance (cannot_read ''null''))"
    "ok response_empty_object" "json response_empty_object = Resolves (JObj [])"
    by code_simp+
  have lack: "lacks_cloned_html (JObj [])" "JObj [] \<noteq> JNull" "JObj [] \<noteq> JUndefined"
    by simp_all
  have u: "targetUrl example_panel = ''https://example.com''"
    by code_simp
  have st: "string_of_nat (status response_C) = ''500''"
    by code_simp
  have cr: "clone_request ''https://example.com'' =
      \<lparr> endpoint = ''http://localhost:8000/clone'', http_method = ''POST'',
        headers = [(''Content-Type'', ''application/json'')],
        body = stringify_target_url ''https://example.com'' \<rparr>"
    by (simp add: clone_request_def)
  have start0: "handleSubmit example_panel Pending =
       [PreventDefault, SetLoading True, SetError None, SetClonedHtml JNull,
        Fetch \<lparr> endpoint = ''http://localhost:8000/clone'', http_method = ''POST'',
                headers = [(''Content-Type'', ''application/json'')],
                body = stringify_target_url (targetUrl example_panel) \<rparr>]"
    and payload0: "read_single_field (stringify_target_url (targetUrl example_panel)) =
       Some (''target_url'', targetUrl example_panel)"
    using handleSubmit_order [where s = example_panel] by blast+
  have start: "handleSubmit example_panel Pending =
       [PreventDefault, SetLoading True, SetError None, SetClonedHtml JNull,
        Fetch (clone_request ''https://example.com'')]"
    unfolding start0 u cr ..
  have payload: "read_single_field (body (clone_request ''https://example.com'')) =
       Some (''target_url'', ''https://example.com'')"
    using payload0 unfolding u cr by simp
  have A: "handleSubmit example_panel (Resolves response_A) =
      handleSubmit example_panel Pending @ [SetClonedHtml (JStr example_html), SetLoading False]"
    using handleSubmit_order [where s = example_panel and r = response_A
      and data = "JObj [(''cloned_html'', JStr example_html)]" and v = "JStr example_html"] hyps
    by blast
  have C0: "handleSubmit example_panel (Resolves response_C) =
      handleSubmit example_panel Pending @
      [SetError (Some (''HTTP error! status: '' @ string_of_nat (status response_C))),
       ConsoleError ''Error cloning website:''
         (ErrorInstance (''HTTP error! status: '' @ string_of_nat (status response_C))),
       SetLoading False]"
    using handleSubmit_order [where s = example_panel and r = response_C] hyps
    by blast
  have C: "handleSubmit example_panel (Resolves response_C) =
      handleSubmit example_panel Pending @
      [SetError (Some ''HTTP error! status: 500''),
       ConsoleError ''Error cloning website:'' (ErrorInstance ''HTTP error! status: 500''),
       SetLoading False]"
    unfolding C0 st by simp
  have N0: "handleSubmit example_panel (Resolves response_not_json) =
      handleSubmit example_panel Pending @
      [SetError (Some (case ErrorInstance ''Unexpected end of JSON input'' of
                         ErrorInstance m \<Rightarrow> m | OtherThrown v \<Rightarrow> ''An error occurred'')),
       ConsoleError ''Error cloning website:'' (ErrorInstance ''Unexpected end of JSON input''),
       SetLoading False]"
    using handleSubmit_order [where s = example_panel and r = response_not_json
      and err = "ErrorInstance ''Unexpected end of JSON input''"] hyps
    by blast
  have N: "handleSubmit example_panel (Resolves response_not_json) =
      handleSubmit example_panel Pending @
      [SetError (Some ''Unexpected end of JSON input''),
       ConsoleError ''Error cloning website:'' (ErrorInstance ''Unexpected end of JSON input''),
       SetLoading False]"
    unfolding N0 by simp
  have U: "handleSubmit example_panel (Resolves response_null) =
      handleSubmit example_panel Pending @
      [SetError (Some (cannot_read ''null'')),
       ConsoleError ''Error cloning website:'' (ErrorInstance (cannot_read ''null'')),
       SetLoading False]"
    using handleSubmit_order [where s = example_panel and r = response_null] hyps
    by blast
  have E: "handleSubmit example_panel (Resolves response_empty_object) =
      handleSubmit example_panel Pending @ [SetClonedHtml JUndefined, SetLoading False]"
    using handleSubmit_order [where s = example_panel and r = response_empty_object
      and data = "JObj []"] hyps lack
    by blast
  show ?thesis
    unfolding A C N U E start
    using hyps lack payload by simp
qed

section \<open>Result and error exclude each other\<close>

text \<open>
  Claim C2. After every sequence of events of the panel, starting from the initial
  state, the result cell and the error cell are not both set: one of them is
  \<^verbatim>\<open>null\<close>. The same holds of what is rendered: the result section and the error box
  are never both on the page. It holds in the variant without the theme toggle as
  well, and at every point during a run of \<^verbatim>\<open>handleSubmit\<close> that starts in a state
  where it holds.
\<close>

theorem result_and_error_exclusive:
  "(clonedHtml (page (dispatch_all initial_sys es)) = JNull
      \<or> error (page (dispatch_all initial_sys es)) = None)
   \<and> (result (render (page (dispatch_all initial_sys es))) = NoResult
      \<or> error_box (render (page (dispatch_all initial_sys es))) = None)
   \<and> (clonedHtml_plain (page_plain (dispatch_all_plain initial_sys_plain es')) = JNull
      \<or> error_plain (page_plain (dispatch_all_plain initial_sys_plain es')) = None)
   \<and> (clonedHtml s = JNull \<or> error s = None \<longrightarrow>
        clonedHtml (run_effects s (take n (handleSubmit s f))) = JNull
        \<or> error (run_effects s (take n (handleSubmit s f))) = None)"
proof -
  have a: "clonedHtml (page (dispatch_all initial_sys es)) = JNull
      \<or> error (page (dispatch_all initial_sys es)) = None"
    using inv_reachable [of es] by (simp add: lifecycle_inv_def)
  then have b: "result (render (page (dispatch_all initial_sys es))) = NoResult
      \<or> error_box (render (page (dispatch_all initial_sys es))) = None"
    by (auto simp: render_lifecycle)
  have c: "clonedHtml_plain (page_plain (dispatch_all_plain initial_sys_plain es')) = JNull
      \<or> error_plain (page_plain (dispatch_all_plain initial_sys_plain es')) = None"
    using inv_reachable_plain [of es'] by simp
  have d: "clonedHtml s = JNull \<or> error s = None \<longrightarrow>
        clonedHtml (run_effects s (take n (handleSubmit s f))) = JNull
        \<or> error (run_effects s (take n (handleSubmit s f))) = None"
    using exclusive_prefix [of s n f] by (rule impI)
  from a b c d show ?thesis
    by (intro conjI)
qed

theorem result_and_error_exclusive_witness:
  "clonedHtml (page (dispatch_all initial_sys example_events)) = JStr example_html
   \<and> error (page (dispatch_all initial_sys example_events)) = None
   \<and> error_box (render (page (dispatch_all initial_sys example_events))) = None
   \<and> clonedHtml (page (dispatch_all initial_sys example_events)) \<noteq> JNull
   \<and> error (run_effects (page (dispatch_all initial_sys example_events))
        (take 2 (handleSubmit (page (dispatch_all initial_sys example_events))
           (Resolves response_C)))) = None
   \<and> clonedHtml (run_effects (page (dispatch_all initial_sys example_events))
        (take 7 (handleSubmit (page (dispatch_all initial_sys example_events))
           (Resolves response_C)))) = JNull"
proof -
  let ?s = "page (dispatch_all initial_sys example_events)"
  have h: "clonedHtml ?s = JStr example_html" "error ?s = None" "clonedHtml ?s \<noteq> JNull"
    "error_box (render ?s) = None"
    "error (run_effects ?s (take 2 (handleSubmit ?s (Resolves response_C)))) = None"
    "clonedHtml (run_effects ?s (take 7 (handleSubmit ?s (Resolves response_C)))) = JNull"
    by code_simp+
  from result_and_error_exclusive [where es = example_events and s = ?s and n = 2
      and f = "Resolves response_C"] h
  show ?thesis by blast
qed

section \<open>A response whose status is not 2xx\<close>

lemma run_effects_settled:
  "run_effects s (handleSubmit s Pending @ [SetClonedHtml v, SetLoading False])
     = s\<lparr>loading := False, error := None, clonedHtml := v\<rparr>"
  "run_effects s
     (handleSubmit s Pending @ [SetError (Some m), ConsoleError c err, SetLoading False])
     = s\<lparr>loading := False, error := Some m, clonedHtml := JNull\<rparr>"
  by (simp_all add: handleSubmit_Pending)

lemma digit_char_is_digit: "d < 10 \<Longrightarrow> is_digit (digit_char d)"
  by (simp add: is_digit_def digit_char_def)

lemma digit_char_value: "d < 10 \<Longrightarrow> (of_char (digit_char d) :: nat) - 48 = d"
  by (simp add: digit_char_def)

lemma string_of_nat_digits:
  "string_of_nat n \<noteq> [] \<and> list_all is_digit (string_of_nat n)
   \<and> foldl (\<lambda>a c. 10 * a + ((of_char c :: nat) - 48)) 0 (string_of_nat n) = n"
proof (induction n rule: string_of_nat.induct)
  case (1 n)
  show ?case
  proof (cases "n < 10")
    case True
    then show ?thesis
      by (simp add: string_of_nat.simps [of n] digit_char_is_digit digit_char_value)
  next
    case False
    with 1 have ih: "list_all is_digit (string_of_nat (n div 10))"
      "foldl (\<lambda>a c. 10 * a + ((of_char c :: nat) - 48)) 0 (string_of_nat (n div 10)) = n div 10"
      by simp_all
    have m: "n mod 10 < 10" by simp
    from False ih show ?thesis
      by (simp add: string_of_nat.simps [of n] digit_char_is_digit [OF m] digit_char_value [OF m])
  qed
qed

lemma read_decimal_string_of_nat: "read_decimal (string_of_nat n) = Some n"
  using string_of_nat_digits [of n] by (simp add: read_decimal_def)

text \<open>
  Claim C3. When the response has a status outside 200 to 299, whatever its body, the
  submission leaves the page with the error \<^verbatim>\<open>HTTP error! status: \<close> followed by the
  status in decimal, with the result empty and with loading false, so that the input
  and the submit button are enabled again; the error box shows the message and no
  result is on the page. As events of the panel: a submission in an idle state whose
  request is answered so ends in that state with no invocation left waiting. The same
  holds in the variant without the theme toggle.
\<close>

theorem http_failure:
  assumes "\<not> ok r"
  shows "run_effects s (handleSubmit s (Resolves r)) =
           s\<lparr>loading := False,
             error := Some (''HTTP error! status: '' @ string_of_nat (status r)),
             clonedHtml := JNull\<rparr>
         \<and> read_decimal (string_of_nat (status r)) = Some (status r)
         \<and> \<not> input_disabled (render (run_effects s (handleSubmit s (Resolves r))))
         \<and> \<not> submit_disabled (render (run_effects s (handleSubmit s (Resolves r))))
         \<and> result (render (run_effects s (handleSubmit s (Resolves r)))) = NoResult
         \<and> error_box (render (run_effects s (handleSubmit s (Resolves r)))) =
             Some (''HTTP error! status: '' @ string_of_nat (status r))
         \<and> (\<not> loading (page t) \<and> suspended t = [] \<longrightarrow>
               page (dispatch_all t [Submit, FetchSettles 0 (Resolves r)]) =
                 (page t)\<lparr>loading := False,
                   error := Some (''HTTP error! status: '' @ string_of_nat (status r)),
                   clonedHtml := JNull\<rparr>
               \<and> suspended (dispatch_all t [Submit, FetchSettles 0 (Resolves r)]) = [])
         \<and> run_effects_plain q (handleSubmit_plain q (Resolves r)) =
             q\<lparr>loading_plain := False,
               error_plain := Some (''HTTP error! status: '' @ string_of_nat (status r)),
               clonedHtml_plain := JNull\<rparr>
         \<and> \<not> input_disabled_plain
               (render_plain (run_effects_plain q (handleSubmit_plain q (Resolves r))))
         \<and> \<not> submit_disabled_plain
               (render_plain (run_effects_plain q (handleSubmit_plain q (Resolves r))))"
proof -
  have themed: "run_effects s (handleSubmit s (Resolves r)) =
           s\<lparr>loading := False,
             error := Some (''HTTP error! status: '' @ string_of_nat (status r)),
             clonedHtml := JNull\<rparr>" for s
    using assms
    by (simp add: handleSubmit_cases(2) catch_finally_Throw run_effects_settled
        del: run_effects_append)
  have plain: "run_effects_plain q (handleSubmit_plain q (Resolves r)) =
      q\<lparr>loading_plain := False,
        error_plain := Some (''HTTP error! status: '' @ string_of_nat (status r)),
        clonedHtml_plain := JNull\<rparr>"
    using themed by (rule run_plain_transfer)
  have thrown: "snd (after_fetch (Resolves r)) =
      Throw (ErrorInstance (''HTTP error! status: '' @ string_of_nat (status r)))"
    using assms by (simp add: after_fetch_def)
  have machine: "page (dispatch_all t [Submit, FetchSettles 0 (Resolves r)]) =
        (page t)\<lparr>loading := False,
          error := Some (''HTTP error! status: '' @ string_of_nat (status r)),
          clonedHtml := JNull\<rparr>
      \<and> suspended (dispatch_all t [Submit, FetchSettles 0 (Resolves r)]) = []"
    if "\<not> loading (page t)" "suspended t = []"
    using dispatch_submit_settle [OF that, of "Resolves r"]
    by (simp add: themed thrown)
  show ?thesis
    unfolding themed plain using machine
    by (simp add: render_def render_result_def render_plain_def read_decimal_string_of_nat)
qed

theorem http_failure_witness:
  "\<not> ok response_C
   \<and> run_effects example_panel (handleSubmit example_panel (Resolves response_C)) =
       \<lparr> targetUrl = ''https://example.com'', loading = False, clonedHtml = JNull,
         error = Some ''HTTP error! status: 500'', showRawHtml = False, isDarkMode = False \<rparr>
   \<and> \<not> submit_disabled
         (render (run_effects example_panel (handleSubmit example_panel (Resolves response_C))))
   \<and> read_decimal ''500'' = Some 500
   \<and> \<not> loading (page initial_sys)
   \<and> suspended initial_sys = []
   \<and> error (page (dispatch_all initial_sys [Submit, FetchSettles 0 (Resolves response_C)])) =
       Some ''HTTP error! status: 500''
   \<and> error_plain
         (run_effects_plain initial_panel_plain
            (handleSubmit_plain initial_panel_plain (Resolves response_C))) =
       Some ''HTTP error! status: 500''"
proof -
  have "\<not> ok response_C" by code_simp
  from http_failure [OF this, where s = example_panel and q = initial_panel_plain
      and t = initial_sys]
  show ?thesis
    by code_simp
qed

section \<open>One request at a time\<close>

text \<open>
  Claim C4. While loading is true the URL input and the submit button are disabled,
  so the panel refuses a submission and a change of the URL. In every state that the
  panel reaches from the initial one, at most one invocation of the handler is
  waiting for the network, and loading is true exactly when there is one. The same
  holds in the variant without the theme toggle.
\<close>

theorem single_flight:
  "(loading s \<longrightarrow> input_disabled (render s) \<and> submit_disabled (render s))
   \<and> (loading (page t) \<longrightarrow> step t Submit = None \<and> step t (ChangeUrl v) = None)
   \<and> length (suspended (dispatch_all initial_sys es)) \<le> 1
   \<and> loading (page (dispatch_all initial_sys es))
       = (suspended (dispatch_all initial_sys es) \<noteq> [])
   \<and> (loading_plain q \<longrightarrow>
        input_disabled_plain (render_plain q) \<and> submit_disabled_plain (render_plain q))
   \<and> (loading_plain (page_plain u) \<longrightarrow>
        step_plain u Submit_plain = None \<and> step_plain u (ChangeUrl_plain v) = None)
   \<and> length (suspended_plain (dispatch_all_plain initial_sys_plain es')) \<le> 1
   \<and> loading_plain (page_plain (dispatch_all_plain initial_sys_plain es'))
       = (suspended_plain (dispatch_all_plain initial_sys_plain es') \<noteq> [])"
proof -
  have "length (suspended (dispatch_all initial_sys es)) \<le> 1
      \<and> loading (page (dispatch_all initial_sys es))
          = (suspended (dispatch_all initial_sys es) \<noteq> [])"
    using inv_reachable [of es] by (simp add: lifecycle_inv_def)
  then show ?thesis
    using inv_reachable_plain [of es']
    by (simp add: render_lifecycle render_plain_def)
qed

theorem single_flight_witness:
  "loading (page (dispatch_all initial_sys in_flight_events))
   \<and> input_disabled (render (page (dispatch_all initial_sys in_flight_events)))
   \<and> submit_disabled (render (page (dispatch_all initial_sys in_flight_events)))
   \<and> step (dispatch_all initial_sys in_flight_events) Submit = None
   \<and> step (dispatch_all initial_sys in_flight_events) (ChangeUrl ''x'') = None
   \<and> suspended (dispatch_all initial_sys (in_flight_events @ [Submit, Submit])) = [AwaitFetch]
   \<and> length (sent (dispatch_all initial_sys (in_flight_events @ [Submit, Submit]))) = 1
   \<and> loading_plain (page_plain (dispatch_all_plain initial_sys_plain [Submit_plain]))
   \<and> submit_disabled_plain
        (render_plain (page_plain (dispatch_all_plain initial_sys_plain [Submit_plain])))
   \<and> step_plain (dispatch_all_plain initial_sys_plain [Submit_plain]) Submit_plain = None
   \<and> suspended_plain (dispatch_all_plain initial_sys_plain [Submit_plain, Submit_plain]) =
       [AwaitFetch]"
  using single_flight [of "page (dispatch_all initial_sys in_flight_events)"
      "dispatch_all initial_sys in_flight_events" "''x''" "in_flight_events @ [Submit, Submit]"
      "page_plain (dispatch_all_plain initial_sys_plain [Submit_plain])"
      "dispatch_all_plain initial_sys_plain [Submit_plain]" "[Submit_plain, Submit_plain]"]
  by code_simp

section \<open>A 2xx response with an unexpected body\<close>

text \<open>
  Claim C5, as stated, fails: a response with status 200 and the body \<^verbatim>\<open>{}\<close> lacks the
  \<^verbatim>\<open>cloned_html\<close> field, and the submission stores no error. Reading the missing field
  gives \<^verbatim>\<open>undefined\<close>, which goes into the result.
\<close>

theorem missing_field_counterexample:
  "ok response_empty_object
   \<and> json response_empty_object = Resolves (JObj [])
   \<and> get_cloned_html (JObj []) = Inr JUndefined
   \<and> error (run_effects example_panel
        (handleSubmit example_panel (Resolves response_empty_object))) = None
   \<and> clonedHtml (run_effects example_panel
        (handleSubmit example_panel (Resolves response_empty_object))) = JUndefined
   \<and> loading (run_effects example_panel
        (handleSubmit example_panel (Resolves response_empty_object))) = False"
  by code_simp

text \<open>
  Claim C5, amended. For a response with a 2xx status: when the body is not valid
  JSON the submission fails and the message of the parse error is stored in the error
  cell; when the body is the JSON value \<^verbatim>\<open>null\<close> it fails with the message of the
  \<^verbatim>\<open>TypeError\<close> of the property read; when the body is any other JSON value without a
  \<^verbatim>\<open>cloned_html\<close> field the submission does not fail: the result becomes \<^verbatim>\<open>undefined\<close>,
  the error stays empty, loading goes back to false, and the page shows neither a
  result nor an error. The variant without the theme toggle does the same.
\<close>

theorem response_shape:
  "(ok r \<and> json r = Rejects err \<longrightarrow>
      run_effects s (handleSubmit s (Resolves r)) =
        s\<lparr>loading := False,
          error := Some (case err of ErrorInstance m \<Rightarrow> m
                                   | OtherThrown v \<Rightarrow> ''An error occurred''),
          clonedHtml := JNull\<rparr>
      \<and> run_effects_plain q (handleSubmit_plain q (Resolves r)) =
        q\<lparr>loading_plain := False,
          error_plain := Some (case err of ErrorInstance m \<Rightarrow> m
                                         | OtherThrown v \<Rightarrow> ''An error occurred''),
          clonedHtml_plain := JNull\<rparr>)
   \<and> (ok r \<and> json r = Resolves JNull \<longrightarrow>
      run_effects s (handleSubmit s (Resolves r)) =
        s\<lparr>loading := False, error := Some (cannot_read ''null''), clonedHtml := JNull\<rparr>
      \<and> run_effects_plain q (handleSubmit_plain q (Resolves r)) =
        q\<lparr>loading_plain := False, error_plain := Some (cannot_read ''null''),
          clonedHtml_plain := JNull\<rparr>)
   \<and> (ok r \<and> json r = Resolves data \<and> lacks_cloned_html data
        \<and> data \<noteq> JNull \<and> data \<noteq> JUndefined \<longrightarrow>
      run_effects s (handleSubmit s (Resolves r)) =
        s\<lparr>loading := False, error := None, clonedHtml := JUndefined\<rparr>
      \<and> error_box (render (run_effects s (handleSubmit s (Resolves r)))) = None
      \<and> result (render (run_effects s (handleSubmit s (Resolves r)))) = NoResult
      \<and> run_effects_plain q (handleSubmit_plain q (Resolves r)) =
        q\<lparr>loading_plain := False, error_plain := None, clonedHtml_plain := JUndefined\<rparr>)"
proof -
  have 1: "run_effects s (handleSubmit s (Resolves r)) =
        s\<lparr>loading := False,
          error := Some (case err of ErrorInstance m \<Rightarrow> m
                                   | OtherThrown v \<Rightarrow> ''An error occurred''),
          clonedHtml := JNull\<rparr>" if "ok r" "json r = Rejects err" for s
    using that
    by (simp add: handleSubmit_cases(4) catch_finally_Throw run_effects_settled
        del: run_effects_append)
  have 2: "run_effects s (handleSubmit s (Resolves r)) =
        s\<lparr>loading := False, error := Some (cannot_read ''null''), clonedHtml := JNull\<rparr>"
    if "ok r" "json r = Resolves JNull" for s
    using that handleSubmit_cases(5) [of r JNull "ErrorInstance (cannot_read ''null'')" s]
    by (simp add: catch_finally_Throw run_effects_settled del: run_effects_append)
  have 3: "run_effects s (handleSubmit s (Resolves r)) =
        s\<lparr>loading := False, error := None, clonedHtml := JUndefined\<rparr>"
    if "ok r" "json r = Resolves data" "lacks_cloned_html data" "data \<noteq> JNull"
      "data \<noteq> JUndefined" for s
    using that handleSubmit_cases(6) [of r data JUndefined s]
    by (simp add: get_cloned_html_lacking catch_finally_Normal run_effects_settled
        del: run_effects_append)
  show ?thesis
    using 1 [of s] 2 [of s] 3 [of s] run_plain_transfer [OF 1, of q] run_plain_transfer [OF 2, of q]
      run_plain_transfer [OF 3, of q]
    by (auto simp: render_def render_result_def)
qed

theorem response_shape_witness:
  "ok response_not_json
   \<and> json response_not_json = Rejects (ErrorInstance ''Unexpected end of JSON input'')
   \<and> error (run_effects example_panel (handleSubmit example_panel (Resolves response_not_json)))
       = Some ''Unexpected end of JSON input''
   \<and> ok response_null
   \<and> json response_null = Resolves JNull
   \<and> error (run_effects example_panel (handleSubmit example_panel (Resolves response_null)))
       = Some (cannot_read ''null'')
   \<and> ok response_empty_object
   \<and> json response_empty_object = Resolves (JObj [])
   \<and> lacks_cloned_html (JObj [])
   \<and> run_effects example_panel (handleSubmit example_panel (Resolves response_empty_object))
       = example_panel\<lparr>loading := False, error := None, clonedHtml := JUndefined\<rparr>
   \<and> run_effects_plain initial_panel_plain
        (handleSubmit_plain initial_panel_plain (Resolves response_empty_object))
       = initial_panel_plain\<lparr>loading_plain := False, error_plain := None,
           clonedHtml_plain := JUndefined\<rparr>"
proof -
  have h:
    "ok response_not_json"
    "json response_not_json = Rejects (ErrorInstance ''Unexpected end of JSON input'')"
    "ok response_null" "json response_null = Resolves JNull"
    "ok response_empty_object" "json response_empty_object = Resolves (JObj [])"
    by code_simp+
  have e: "lacks_cloned_html (JObj [])" "JObj [] \<noteq> JNull" "JObj [] \<noteq> JUndefined"
    by simp_all
  show ?thesis
    using h e
      response_shape [where s = example_panel and r = response_not_json
        and err = "ErrorInstance ''Unexpected end of JSON input''"]
      response_shape [where s = example_panel and r = response_null]
      response_shape [where s = example_panel and r = response_empty_object and data = "JObj []"
        and q = initial_panel_plain]
    by simp
qed

section \<open>The download\<close>

text \<open>Decoding the UTF-8 of a string without lone surrogates gives the string back.\<close>

lemma mod64_le: "(x::nat) mod 0x40 \<le> 0x3F"
proof -
  have "x mod 0x40 < 0x40" by simp
  then show ?thesis by linarith
qed

lemma div_0x1000: "(c::nat) div 0x1000 = c div 0x40 div 0x40"
  by (simp add: div_mult2_eq [symmetric])

lemma div_0x40000: "(c::nat) div 0x40000 = c div 0x1000 div 0x40"
  by (simp add: div_mult2_eq [symmetric])

lemma join_0x1000: "(c::nat) div 0x1000 * 0x40 + c div 0x40 mod 0x40 = c div 0x40"
  unfolding div_0x1000 by simp

lemma join_0x40000: "(c::nat) div 0x40000 * 0x40 + c div 0x1000 mod 0x40 = c div 0x1000"
  unfolding div_0x40000 by simp

lemma decode_utf8:
  assumes "valid_scalar c"
  shows "decode_from 0 a l (utf8 c @ rest) = map_option ((#) c) (decode_from 0 0 0 rest)"
proof -
  consider (one) "c < 0x80" | (two) "0x80 \<le> c" "c < 0x800"
    | (three) "0x800 \<le> c" "c < 0x10000" | (four) "0x10000 \<le> c"
    by linarith
  then show ?thesis
  proof cases
    case one
    then show ?thesis by (simp add: utf8_def)
  next
    case two
    have b0: "(0xC0 + c div 0x40) mod 256 = 0xC0 + c div 0x40" using two by simp
    have b1: "(0x80 + c mod 0x40) mod 256 = 0x80 + c mod 0x40" by simp
    have r: "c div 0x40 * 0x40 + c mod 0x40 = c" by simp
    have v: "c div 0x40 < 0x20" using two by simp
    have m: "c mod 0x40 \<le> 0x3F" by (rule mod64_le)
    from two v m assms show ?thesis
      by (simp add: utf8_def b0 b1 r)
  next
    case three
    have b0: "(0xE0 + c div 0x1000) mod 256 = 0xE0 + c div 0x1000" using three by simp
    have b1: "(0x80 + c div 0x40 mod 0x40) mod 256 = 0x80 + c div 0x40 mod 0x40" by simp
    have b2: "(0x80 + c mod 0x40) mod 256 = 0x80 + c mod 0x40" by simp
    have r1: "c div 0x1000 * 0x40 + c div 0x40 mod 0x40 = c div 0x40" by (rule join_0x1000)
    have r: "c div 0x40 * 0x40 + c mod 0x40 = c" by simp
    have v: "c div 0x1000 < 0x10" using three by simp
    have m: "c mod 0x40 \<le> 0x3F" "c div 0x40 mod 0x40 \<le> 0x3F" by (rule mod64_le)+
    from three v m assms show ?thesis
      by (simp add: utf8_def b0 b1 b2 r1 r)
  next
    case four
    have lt: "c < 0x110000" using assms by (simp add: valid_scalar_def)
    have b0: "(0xF0 + c div 0x40000) mod 256 = 0xF0 + c div 0x40000" using lt by simp
    have b1: "(0x80 + c div 0x1000 mod 0x40) mod 256 = 0x80 + c div 0x1000 mod 0x40" by simp
    have b2: "(0x80 + c div 0x40 mod 0x40) mod 256 = 0x80 + c div 0x40 mod 0x40" by simp
    have b3: "(0x80 + c mod 0x40) mod 256 = 0x80 + c mod 0x40" by simp
    have r2: "c div 0x40000 * 0x40 + c div 0x1000 mod 0x40 = c div 0x1000" by (rule join_0x40000)
    have r1: "c div 0x1000 * 0x40 + c div 0x40 mod 0x40 = c div 0x40" by (rule join_0x1000)
    have r: "c div 0x40 * 0x40 + c mod 0x40 = c" by simp
    have v: "c div 0x40000 < 0x8" using lt by simp
    have m: "c mod 0x40 \<le> 0x3F" "c div 0x40 mod 0x40 \<le> 0x3F"
      "c div 0x1000 mod 0x40 \<le> 0x3F" by (rule mod64_le)+
    from four v m assms show ?thesis
      by (simp add: utf8_def b0 b1 b2 b3 r2 r1 r)
  qed
qed

lemma decode_encode_scalars:
  "list_all valid_scalar cs \<Longrightarrow> utf8_decode (concat (map utf8 cs)) = Some cs"
  unfolding utf8_decode_def
  by (induction cs) (simp_all add: decode_utf8)

lemma scalar_values_valid: "well_formed s \<Longrightarrow> list_all valid_scalar (scalar_values s)"
proof (induction s rule: scalar_values.induct)
  case 1
  show ?case by simp
next
  case (2 u)
  then show ?case
    by (auto simp: valid_scalar_def high_surrogate_def low_surrogate_def)
next
  case (3 u v us)
  then show ?case
    by (auto simp: valid_scalar_def high_surrogate_def low_surrogate_def)
qed

lemma utf16_pair:
  assumes "high_surrogate u" and "low_surrogate v"
  shows "utf16 (0x10000 + (u - 0xD800) * 0x400 + (v - 0xDC00)) = [u, v]"
proof -
  let ?h = "u - 0xD800" and ?l = "v - 0xDC00"
  have l: "?l < 0x400" using assms(2) unfolding low_surrogate_def by arith
  have d: "(?h * 0x400 + ?l) div 0x400 = ?h" using l by simp
  have m: "(?h * 0x400 + ?l) mod 0x400 = ?l" using l by simp
  have hu: "0xD800 + ?h = u" using assms(1) unfolding high_surrogate_def by arith
  have lv: "0xDC00 + ?l = v" using assms(2) unfolding low_surrogate_def by arith
  have "utf16 (0x10000 + ?h * 0x400 + ?l) =
      [0xD800 + (?h * 0x400 + ?l) div 0x400, 0xDC00 + (?h * 0x400 + ?l) mod 0x400]"
    by (simp add: utf16_def)
  also have "\<dots> = [u, v]"
    unfolding d m hu lv ..
  finally show ?thesis .
qed

lemma utf16_scalar_values: "well_formed s \<Longrightarrow> concat (map utf16 (scalar_values s)) = s"
proof (induction s rule: scalar_values.induct)
  case 1
  show ?case by simp
next
  case (2 u)
  then show ?case by (simp add: utf16_def)
next
  case (3 u v us)
  show ?case
  proof (cases "high_surrogate u \<and> low_surrogate v")
    case True
    with 3 show ?thesis by (simp add: utf16_pair)
  next
    case False
    with 3 show ?thesis by (simp add: utf16_def)
  qed
qed

lemma utf16_of_utf8_encode: "well_formed s \<Longrightarrow> utf16_of_utf8 (utf8_encode s) = Some s"
  by (simp add: utf16_of_utf8_def utf8_encode_def decode_encode_scalars scalar_values_valid
      utf16_scalar_values)

text \<open>A text of ASCII characters is its own UTF-8.\<close>

lemma scalar_values_Cons_plain:
  assumes "\<not> high_surrogate u" and "\<not> low_surrogate u"
  shows "scalar_values (u # us) = u # scalar_values us"
  using assms by (cases us) simp_all

lemma well_formed_Cons_plain:
  assumes "u < 0x10000" and "\<not> high_surrogate u" and "\<not> low_surrogate u"
  shows "well_formed (u # us) = well_formed us"
  using assms by (cases us) simp_all

lemma utf8_encode_ascii:
  assumes "list_all (\<lambda>c. (of_char c :: nat) < 0x80) x"
  shows "utf8_encode (ascii x) = x \<and> well_formed (ascii x)"
  using assms
proof (induction x)
  case Nil
  show ?case by (simp add: utf8_encode_def ascii_def)
next
  case (Cons c x)
  then have c: "(of_char c :: nat) < 0x80" and ih: "utf8_encode (ascii x) = x"
    "well_formed (ascii x)"
    by simp_all
  from c have plain: "\<not> high_surrogate (of_char c)" "\<not> low_surrogate (of_char c)"
    "(of_char c :: nat) < 0x10000"
    by (simp_all add: high_surrogate_def low_surrogate_def)
  have a: "ascii (c # x) = of_char c # ascii x"
    by (simp add: ascii_def)
  have "utf8_encode (ascii (c # x)) = utf8 (of_char c) @ utf8_encode (ascii x)"
    unfolding a utf8_encode_def by (simp add: scalar_values_Cons_plain [OF plain(1,2)])
  also have "\<dots> = c # x"
    using c by (simp add: utf8_def ih)
  finally have "utf8_encode (ascii (c # x)) = c # x" .
  moreover have "well_formed (ascii (c # x))"
    unfolding a by (simp add: well_formed_Cons_plain [OF plain(3,1,2)] ih)
  ultimately show ?case by simp
qed

text \<open>The handler of the download button.\<close>

lemma foldr_max_ge: "x \<in> set xs \<Longrightarrow> x \<le> foldr max xs (0::nat)"
  by (induction xs) (auto simp: max_def)

lemma fresh_notin: "fresh used \<notin> set used"
proof
  assume "fresh used \<in> set used"
  then have "fresh used \<le> foldr max used 0" by (rule foldr_max_ge)
  then show False by (simp add: fresh_def)
qed

lemma filter_fresh: "filter (\<lambda>kb. fst kb \<noteq> fresh (map fst st)) st = st"
proof -
  have "\<forall>kb \<in> set st. fst kb \<noteq> fresh (map fst st)"
    using fresh_notin [of "map fst st"] by force
  then show ?thesis by simp
qed

lemma map_of_fresh: "map_of (st @ [(fresh (map fst st), b)]) (fresh (map fst st)) = Some b"
proof -
  have "map_of st (fresh (map fst st)) = None"
    using fresh_notin [of "map fst st"] by (simp add: map_of_eq_None_iff)
  then show ?thesis by (simp add: map_add_def)
qed

lemma remove1_fresh: "remove1 (fresh xs) (xs @ [fresh xs]) = xs"
  using fresh_notin [of xs] by (simp add: remove1_append)

lemma click_live:
  assumes "map_of (object_urls br) u = Some b"
  shows "click \<lparr> node = n, href = Some u, download = Some name \<rparr> br =
           br\<lparr>downloads := downloads br @
               [\<lparr> file_name = name, file_type = blob_type b, file_bytes = blob_bytes b \<rparr>]\<rparr>"
  using assms by (simp add: click_def)

lemma download_onClick_eq:
  "download_onClick html br =
     br\<lparr>downloads := downloads br @
         [\<lparr> file_name = ''cloned_site.html'', file_type = ''text/html'',
            file_bytes = utf8_encode html \<rparr>]\<rparr>"
proof -
  define b where "b = new_Blob html ''text/html''"
  define u where "u = fresh (map fst (object_urls br))"
  define br1 where "br1 = br\<lparr>object_urls := object_urls br @ [(u, b)]\<rparr>"
  define n where "n = fresh (body_children br1)"
  define a2 where "a2 = \<lparr> node = n, href = Some u, download = Some ''cloned_site.html'' \<rparr>"
  define br2 where "br2 = appendChild a2 br1"
  define br3 where "br3 = click a2 br2"
  define br4 where "br4 = removeChild a2 br3"
  have unfold: "download_onClick html br = revokeObjectURL u br4"
    by (simp add: download_onClick_def createObjectURL_def Let_def createElement_a_def
        b_def u_def br1_def n_def a2_def br2_def br3_def br4_def)
  have live: "map_of (object_urls br2) u = Some b"
    using map_of_fresh [of "object_urls br" b]
    by (simp add: br2_def appendChild_def br1_def u_def del: map_of_append)
  have br3: "br3 = br2\<lparr>downloads := downloads br2 @
      [\<lparr> file_name = ''cloned_site.html'', file_type = ''text/html'',
         file_bytes = utf8_encode html \<rparr>]\<rparr>"
    unfolding br3_def a2_def using click_live [OF live]
    by (simp add: b_def new_Blob_def)
  have br4: "br4 = br1\<lparr>downloads := downloads br @
      [\<lparr> file_name = ''cloned_site.html'', file_type = ''text/html'',
         file_bytes = utf8_encode html \<rparr>]\<rparr>"
    using remove1_fresh [of "body_children br1"]
    by (simp add: br4_def br3 br2_def removeChild_def appendChild_def a2_def n_def br1_def)
  show ?thesis
    using filter_fresh [of "object_urls br"]
    by (simp add: unfold br4 br1_def revokeObjectURL_def u_def)
qed

text \<open>
  Claim C6. When the result is a non-empty string, the page shows the result section
  with its download button, and a click on it starts the saving of one file named
  \<^verbatim>\<open>cloned_site.html\<close>, of type \<^verbatim>\<open>text/html\<close>, whose bytes are exactly the string. The
  browser is otherwise as before: the object URL made for the file was in the store
  when the anchor was clicked and is gone from it when the handler returns, and the
  anchor is no longer a child of the body.
\<close>

text \<open>
  Claim C6, as stated, fails: the result can hold a surrogate that stands alone, as
  the string of the JSON text \<^verbatim>\<open>"\ud800x"\<close> does. It is not empty, so the download
  button is there; the file that a click saves holds the bytes EF BF BD 78, the UTF-8
  of U+FFFD and x, and they stand for another string than the result.
\<close>

theorem lone_surrogate_counterexample:
  "truthy (JStr lone_surrogate_html)
   \<and> lone_surrogate_html = [0xD800, 0x78]
   \<and> downloads (download_onClick lone_surrogate_html example_browser) =
       [\<lparr> file_name = ''cloned_site.html'', file_type = ''text/html'',
          file_bytes = map char_of [0xEF, 0xBF, 0xBD, 0x78 :: nat] \<rparr>]
   \<and> utf16_of_utf8 (map char_of [0xEF, 0xBF, 0xBD, 0x78 :: nat]) = Some [0xFFFD, 0x78]
   \<and> utf16_of_utf8 (map char_of [0xEF, 0xBF, 0xBD, 0x78 :: nat]) \<noteq> Some lone_surrogate_html"
proof -
  have e: "utf8_encode lone_surrogate_html = map char_of [0xEF, 0xBF, 0xBD, 0x78 :: nat]"
    by (simp add: lone_surrogate_html_def utf8_encode_def utf8_def high_surrogate_def
        low_surrogate_def)
  have d: "utf16_of_utf8 (map char_of [0xEF, 0xBF, 0xBD, 0x78 :: nat]) = Some [0xFFFD, 0x78]"
    by (simp add: utf16_of_utf8_def utf8_decode_def valid_scalar_def utf16_def)
  show ?thesis
    unfolding d download_onClick_eq e
    by (simp add: lone_surrogate_html_def example_browser_def)
qed

text \<open>
  Claim C6, amended. When the result is a non-empty string, the page shows the result
  section with its download button, and a click on it starts the saving of one file
  named \<^verbatim>\<open>cloned_site.html\<close>, of type \<^verbatim>\<open>text/html\<close>, whose bytes are the UTF-8
  encoding of the string with U+FFFD in the place of every lone surrogate. When the
  string has no lone surrogate, the bytes stand for exactly the string: decoding them
  gives it back; when it is a text of ASCII characters, the bytes are its characters.
  The browser is otherwise as before: the object URL made for the file was in the
  store when the anchor was clicked and is gone from it when the handler returns,
  and the anchor is no longer a child of the body.
\<close>

theorem download_file:
  assumes "clonedHtml s = JStr html" and "html \<noteq> []"
  shows "(\<exists>v. result (render s) = ResultSection v)
         \<and> download_onClick html br =
             br\<lparr>downloads := downloads br @
                 [\<lparr> file_name = ''cloned_site.html'', file_type = ''text/html'',
                    file_bytes = utf8_encode html \<rparr>]\<rparr>
         \<and> (well_formed html \<longrightarrow> utf16_of_utf8 (utf8_encode html) = Some html)
         \<and> (html = ascii x \<and> list_all (\<lambda>c. (of_char c :: nat) < 0x80) x \<longrightarrow>
               well_formed html \<and> utf8_encode html = x)"
  using assms utf8_encode_ascii [of x]
  by (auto simp: download_onClick_eq render_def render_result_def utf16_of_utf8_encode)

theorem download_file_witness:
  "clonedHtml (page (dispatch_all initial_sys example_events)) = JStr example_html
   \<and> example_html \<noteq> []
   \<and> example_html = ascii ''<html><body>Hi</body></html>''
   \<and> list_all (\<lambda>c. (of_char c :: nat) < 0x80) ''<html><body>Hi</body></html>''
   \<and> download_onClick example_html example_browser =
       \<lparr> object_urls = [(3, new_Blob (ascii ''older'') ''text/plain'')],
         body_children = [1, 7],
         downloads = [\<lparr> file_name = ''cloned_site.html'', file_type = ''text/html'',
                        file_bytes = ''<html><body>Hi</body></html>'' \<rparr>] \<rparr>
   \<and> utf16_of_utf8 ''<html><body>Hi</body></html>'' = Some example_html
   \<and> well_formed accented_html
   \<and> utf8_encode accented_html =
       map char_of [0xC3, 0xA9, 0xF0, 0x9F, 0x98, 0x80, 0xE2, 0x82, 0xAC :: nat]
   \<and> utf16_of_utf8 (map char_of [0xC3, 0xA9, 0xF0, 0x9F, 0x98, 0x80, 0xE2, 0x82, 0xAC :: nat]) =
       Some accented_html"
proof -
  have h: "clonedHtml (page (dispatch_all initial_sys example_events)) = JStr example_html"
    by code_simp
  have ne: "example_html \<noteq> []"
    by (simp add: example_html_def ascii_def)
  have a: "example_html = ascii ''<html><body>Hi</body></html>''"
    by (simp add: example_html_def)
  have l: "list_all (\<lambda>c. (of_char c :: nat) < 0x80) ''<html><body>Hi</body></html>''"
    by simp
  note w = download_file [OF h ne, of example_browser "''<html><body>Hi</body></html>''"]
  from w a l have wf: "well_formed example_html"
    and enc: "utf8_encode example_html = ''<html><body>Hi</body></html>''"
    by blast+
  from w wf have again: "utf16_of_utf8 (utf8_encode example_html) = Some example_html"
    by blast
  from w have dl: "download_onClick example_html example_browser =
      example_browser\<lparr>downloads := downloads example_browser @
        [\<lparr> file_name = ''cloned_site.html'', file_type = ''text/html'',
           file_bytes = utf8_encode example_html \<rparr>]\<rparr>"
    by blast
  have acc: "well_formed accented_html"
    "utf8_encode accented_html =
       map char_of [0xC3, 0xA9, 0xF0, 0x9F, 0x98, 0x80, 0xE2, 0x82, 0xAC :: nat]"
    by (simp_all add: accented_html_def utf8_encode_def utf8_def high_surrogate_def
        low_surrogate_def)
  have accagain: "utf16_of_utf8 (utf8_encode accented_html) = Some accented_html"
    using acc(1) by (rule utf16_of_utf8_encode)
  show ?thesis
    using h ne a l again acc accagain
    unfolding dl enc acc(2)
    by (simp add: example_browser_def)
qed

section \<open>The theme does not reach the request\<close>

lemma apply_effect_theme:
  "apply_effect (s\<lparr>isDarkMode := d\<rparr>) e = (apply_effect s e)\<lparr>isDarkMode := d\<rparr>"
  by (cases e) simp_all

lemma run_effects_theme:
  "run_effects (s\<lparr>isDarkMode := d\<rparr>) es = (run_effects s es)\<lparr>isDarkMode := d\<rparr>"
  by (induction es arbitrary: s) (simp_all add: apply_effect_theme)

lemma handleSubmit_theme: "handleSubmit (s\<lparr>isDarkMode := d\<rparr>) f = handleSubmit s f"
  by (simp add: handleSubmit_def)

lemma render_theme_controls:
  "submit_disabled (render (s\<lparr>isDarkMode := d\<rparr>)) = submit_disabled (render s)"
  "input_disabled (render (s\<lparr>isDarkMode := d\<rparr>)) = input_disabled (render s)"
  by (simp_all add: render_def)

lemma resume_set_theme: "resume (set_theme d t) i ec = set_theme d (resume t i ec)"
proof (cases ec)
  case (Pair es c)
  then show ?thesis
    by (cases c) (simp_all add: resume_def set_theme_def run_effects_theme)
qed

lemma step_set_theme:
  "step (set_theme d t) e =
     map_option (set_theme (if e = ToggleTheme then \<not> d else d)) (step t e)"
proof (cases e)
  case Submit
  then show ?thesis
    by (simp add: set_theme_def render_theme_controls handleSubmit_theme run_effects_theme)
next
  case (FetchSettles i f)
  have "suspended (set_theme d t) = suspended t"
    by (simp add: set_theme_def)
  with FetchSettles show ?thesis
    by (simp add: resume_set_theme)
next
  case (JsonSettles i j)
  have "suspended (set_theme d t) = suspended t"
    by (simp add: set_theme_def)
  with JsonSettles show ?thesis
    by (simp add: resume_set_theme)
next
  case ToggleTheme
  then show ?thesis
    by (simp add: set_theme_def toggleTheme_def)
next
  case ToggleRawHtml
  then show ?thesis
    by (simp add: set_theme_def step_ToggleRawHtml toggleRawHtml_def del: step.simps)
next
  case (ChangeUrl v)
  then show ?thesis
    by (simp add: set_theme_def render_theme_controls changeUrl_def)
qed

lemma forget_set_theme: "forget_theme (set_theme d t) = forget_theme t"
  by (simp add: forget_theme_def set_theme_def)

lemma forget_theme_eqD:
  assumes "forget_theme t1 = forget_theme t2"
  shows "t2 = set_theme (isDarkMode (page t2)) t1"
proof -
  obtain p1 su1 se1 where t1: "t1 = \<lparr> page = p1, suspended = su1, sent = se1 \<rparr>"
    by (cases t1) blast
  obtain p2 su2 se2 where t2: "t2 = \<lparr> page = p2, suspended = su2, sent = se2 \<rparr>"
    by (cases t2) blast
  obtain u1 l1 c1 e1 r1 d1 where p1: "p1 = \<lparr> targetUrl = u1, loading = l1, clonedHtml = c1,
      error = e1, showRawHtml = r1, isDarkMode = d1 \<rparr>"
    by (cases p1) blast
  obtain u2 l2 c2 e2 r2 d2 where p2: "p2 = \<lparr> targetUrl = u2, loading = l2, clonedHtml = c2,
      error = e2, showRawHtml = r2, isDarkMode = d2 \<rparr>"
    by (cases p2) blast
  from assms show ?thesis
    by (simp add: forget_theme_def set_theme_def t1 t2 p1 p2)
qed

lemma forget_theme_dispatch:
  assumes "forget_theme t1 = forget_theme t2"
  shows "forget_theme (dispatch t1 e) = forget_theme (dispatch t2 e)"
proof -
  obtain d where t2: "t2 = set_theme d t1"
    using forget_theme_eqD [OF assms] ..
  show ?thesis
    unfolding t2 dispatch_def step_set_theme
    by (cases "step t1 e") (simp_all add: forget_set_theme)
qed

lemma forget_theme_dispatch_all:
  "forget_theme t1 = forget_theme t2 \<Longrightarrow>
   forget_theme (dispatch_all t1 es) = forget_theme (dispatch_all t2 es)"
proof (induction es arbitrary: t1 t2)
  case Nil
  then show ?case by (simp add: dispatch_all_def)
next
  case (Cons e es)
  have "forget_theme (dispatch t1 e) = forget_theme (dispatch t2 e)"
    using Cons.prems by (rule forget_theme_dispatch)
  then have "forget_theme (dispatch_all (dispatch t1 e) es) =
      forget_theme (dispatch_all (dispatch t2 e) es)"
    by (rule Cons.IH)
  then show ?case by (simp add: dispatch_all_def)
qed

text \<open>
  Claim C7. \<^verbatim>\<open>handleSubmit\<close> issues the same effects, and so the same request, whatever
  the theme flag is, and the state after them differs in the theme flag at most.
  Toggling the theme changes the theme flag and nothing else, also while a request
  is in flight; two states of the panel that differ in the theme only still differ
  in the theme only after any sequence of events.
\<close>

theorem theme_is_cosmetic:
  "handleSubmit (s\<lparr>isDarkMode := d\<rparr>) f = handleSubmit s f
   \<and> run_effects (s\<lparr>isDarkMode := d\<rparr>) (handleSubmit (s\<lparr>isDarkMode := d\<rparr>) f) =
       (run_effects s (handleSubmit s f))\<lparr>isDarkMode := d\<rparr>
   \<and> forget_theme (dispatch t ToggleTheme) = forget_theme t
   \<and> (forget_theme t1 = forget_theme t2 \<longrightarrow>
        forget_theme (dispatch_all t1 es) = forget_theme (dispatch_all t2 es))"
proof -
  have "forget_theme (dispatch t ToggleTheme) = forget_theme t"
    by (simp add: dispatch_def forget_theme_def toggleTheme_def)
  moreover have "forget_theme t1 = forget_theme t2 \<longrightarrow>
        forget_theme (dispatch_all t1 es) = forget_theme (dispatch_all t2 es)"
    using forget_theme_dispatch_all [of t1 t2 es] by blast
  ultimately show ?thesis
    by (simp add: handleSubmit_theme run_effects_theme)
qed

theorem theme_is_cosmetic_witness:
  "forget_theme (dispatch_all initial_sys (in_flight_events @ [ToggleTheme])) =
     forget_theme (dispatch_all initial_sys in_flight_events)
   \<and> isDarkMode (page (dispatch_all initial_sys (in_flight_events @ [ToggleTheme])))
   \<and> \<not> isDarkMode (page (dispatch_all initial_sys in_flight_events))
   \<and> forget_theme (dispatch_all (dispatch_all initial_sys (in_flight_events @ [ToggleTheme]))
         [FetchSettles 0 (Resolves response_A)]) =
       forget_theme (dispatch_all (dispatch_all initial_sys in_flight_events)
         [FetchSettles 0 (Resolves response_A)])
   \<and> clonedHtml (page (dispatch_all (dispatch_all initial_sys (in_flight_events @ [ToggleTheme]))
         [FetchSettles 0 (Resolves response_A)])) = JStr example_html"
proof -
  have h: "forget_theme (dispatch_all initial_sys (in_flight_events @ [ToggleTheme])) =
     forget_theme (dispatch_all initial_sys in_flight_events)"
    by code_simp
  have more: "isDarkMode (page (dispatch_all initial_sys (in_flight_events @ [ToggleTheme])))"
    "\<not> isDarkMode (page (dispatch_all initial_sys in_flight_events))"
    "clonedHtml (page (dispatch_all (dispatch_all initial_sys (in_flight_events @ [ToggleTheme]))
         [FetchSettles 0 (Resolves response_A)])) = JStr example_html"
    by code_simp+
  from theme_is_cosmetic [where ?t1.0 = "dispatch_all initial_sys (in_flight_events @ [ToggleTheme])"
      and ?t2.0 = "dispatch_all initial_sys in_flight_events"
      and es = "[FetchSettles 0 (Resolves response_A)]"] h more
  show ?thesis by blast
qed

section \<open>The request on the wire\<close>

text \<open>
  Claim C8. Every run of \<^verbatim>\<open>handleSubmit\<close>, in both variants of the page and however the
  network answers, issues one request: a POST to \<^verbatim>\<open>http://localhost:8000/clone\<close> with
  the header \<^verbatim>\<open>Content-Type: application/json\<close>, whose body is the JSON text of an
  object with the single field \<^verbatim>\<open>target_url\<close> holding the submitted URL.
\<close>

theorem clone_request_shape:
  "requests_of (handleSubmit s f) = [clone_request (targetUrl s)]
   \<and> requests_of (handleSubmit_plain q f) = [clone_request (targetUrl_plain q)]
   \<and> endpoint (clone_request url) = ''http://localhost:8000/clone''
   \<and> http_method (clone_request url) = ''POST''
   \<and> headers (clone_request url) = [(''Content-Type'', ''application/json'')]
   \<and> body (clone_request url) =
       CHR ''{'' # JSON_quote ''target_url'' @ CHR '':'' # JSON_quote url @ ''}''
   \<and> read_single_field (body (clone_request url)) = Some (''target_url'', url)"
proof -
  have "targetUrl_plain q = targetUrl (initial_panel\<lparr>targetUrl := targetUrl_plain q\<rparr>)"
    by simp
  then have "handleSubmit_plain q f =
      handleSubmit (initial_panel\<lparr>targetUrl := targetUrl_plain q\<rparr>) f"
    by (rule handleSubmit_plain_eq)
  then have "requests_of (handleSubmit_plain q f) = [clone_request (targetUrl_plain q)]"
    by (simp add: requests_of_handleSubmit)
  moreover have "read_single_field (body (clone_request url)) = Some (''target_url'', url)"
    by (simp add: clone_request_def read_single_field_stringify)
  moreover have "body (clone_request url) =
       CHR ''{'' # JSON_quote ''target_url'' @ CHR '':'' # JSON_quote url @ ''}''"
    by (simp add: clone_request_def stringify_target_url_def)
  ultimately show ?thesis
    by (simp add: requests_of_handleSubmit) (simp add: clone_request_def)
qed

theorem clone_request_shape_witness:
  "requests_of (handleSubmit example_panel (Resolves response_A)) =
     [\<lparr> endpoint = ''http://localhost:8000/clone'', http_method = ''POST'',
        headers = [(''Content-Type'', ''application/json'')],
        body = [CHR ''{'', CHR 0x22] @ ''target_url'' @ [CHR 0x22, CHR '':'', CHR 0x22]
               @ ''https://example.com'' @ [CHR 0x22, CHR ''}''] \<rparr>]
   \<and> read_single_field
        ([CHR ''{'', CHR 0x22] @ ''target_url'' @ [CHR 0x22, CHR '':'', CHR 0x22]
         @ ''https://example.com'' @ [CHR 0x22, CHR ''}''])
       = Some (''target_url'', ''https://example.com'')"
proof -
  have b: "clone_request ''https://example.com'' =
      \<lparr> endpoint = ''http://localhost:8000/clone'', http_method = ''POST'',
        headers = [(''Content-Type'', ''application/json'')],
        body = [CHR ''{'', CHR 0x22] @ ''target_url'' @ [CHR 0x22, CHR '':'', CHR 0x22]
               @ ''https://example.com'' @ [CHR 0x22, CHR ''}''] \<rparr>"
    by code_simp
  have u: "targetUrl example_panel = ''https://example.com''"
    by code_simp
  have r0: "requests_of (handleSubmit example_panel (Resolves response_A)) =
      [clone_request (targetUrl example_panel)]"
    and p: "read_single_field (body (clone_request ''https://example.com'')) =
      Some (''target_url'', ''https://example.com'')"
    using clone_request_shape [where s = example_panel and f = "Resolves response_A"
        and url = "''https://example.com''" and q = initial_panel_plain]
    by blast+
  from r0 have r: "requests_of (handleSubmit example_panel (Resolves response_A)) =
      [clone_request ''https://example.com'']"
    by (simp only: u)
  show ?thesis
    using r p unfolding b by simp
qed

section \<open>The toggles\<close>

text \<open>
  Claim C9. Pressing the raw-HTML toggle twice gives back the display mode, and
  pressing the theme toggle twice gives back the theme flag and with it everything
  that is rendered: each toggle applied twice is the identity, on the state of the
  page, on what is rendered, and as a pair of events of the panel.
\<close>

theorem toggles_are_involutions:
  "toggleRawHtml (toggleRawHtml s) = s
   \<and> toggleTheme (toggleTheme s) = s
   \<and> render (toggleRawHtml (toggleRawHtml s)) = render s
   \<and> render (toggleTheme (toggleTheme s)) = render s
   \<and> dispatch_all t [ToggleTheme, ToggleTheme] = t
   \<and> dispatch_all t [ToggleRawHtml, ToggleRawHtml] = t"
proof -
  have raw: "toggleRawHtml (toggleRawHtml p) = p" for p
    by (simp add: toggleRawHtml_def)
  have theme: "toggleTheme (toggleTheme p) = p" for p
    by (simp add: toggleTheme_def)
  have "dispatch_all t [ToggleTheme, ToggleTheme] = t"
    by (simp add: dispatch_all_def dispatch_def theme)
  moreover have "dispatch_all t [ToggleRawHtml, ToggleRawHtml] = t"
  proof -
    have d: "dispatch u ToggleRawHtml =
        (if truthy (clonedHtml (page u)) then u\<lparr>page := toggleRawHtml (page u)\<rparr> else u)"
      for u
      by (simp add: dispatch_def step_ToggleRawHtml del: step.simps)
    have k: "clonedHtml (toggleRawHtml p) = clonedHtml p" for p
      by (simp add: toggleRawHtml_def)
    show ?thesis
      by (simp add: dispatch_all_def d k raw)
  qed
  ultimately show ?thesis
    by (simp add: raw theme)
qed

section \<open>The two variants agree\<close>

text \<open>
  Claim C10. Started on the same URL and given the same answer of the network, the
  submit handlers of the two variants issue the same effects, so the same request,
  and leave the same loading flag, result and error. As machines the two variants
  agree as well: on the events they have in common, the variant without the theme
  toggle takes exactly the steps of the other one with the theme and the display
  mode left out, and so do whole runs from the initial state.
\<close>

theorem variants_agree:
  "(targetUrl_plain q = targetUrl s \<longrightarrow>
      handleSubmit_plain q f = handleSubmit s f
      \<and> loading_plain (run_effects_plain q (handleSubmit_plain q f)) =
          loading (run_effects s (handleSubmit s f))
      \<and> clonedHtml_plain (run_effects_plain q (handleSubmit_plain q f)) =
          clonedHtml (run_effects s (handleSubmit s f))
      \<and> error_plain (run_effects_plain q (handleSubmit_plain q f)) =
          error (run_effects s (handleSubmit s f)))
   \<and> step_plain (project t) e = map_option project (step t (embed e))
   \<and> dispatch_all_plain initial_sys_plain es =
       project (dispatch_all initial_sys (map embed es))"
proof -
  have "loading_plain (run_effects_plain q (handleSubmit s f)) =
          loading (run_effects s (handleSubmit s f))
      \<and> clonedHtml_plain (run_effects_plain q (handleSubmit s f)) =
          clonedHtml (run_effects s (handleSubmit s f))
      \<and> error_plain (run_effects_plain q (handleSubmit s f)) =
          error (run_effects s (handleSubmit s f))"
    using after_fetch_cases [of f]
    by (auto simp: handleSubmit_split [of s f] handleSubmit_Pending catch_finally_Throw
        catch_finally_Normal catch_finally_Suspend run_effects_plain_def)
  then show ?thesis
    by (simp add: handleSubmit_plain_eq step_plain_project reachable_plain)
qed

theorem variants_agree_witness:
  "targetUrl_plain (initial_panel_plain\<lparr>targetUrl_plain := ''https://example.com''\<rparr>) =
     targetUrl example_panel
   \<and> handleSubmit_plain (initial_panel_plain\<lparr>targetUrl_plain := ''https://example.com''\<rparr>)
        (Resolves response_A) = handleSubmit example_panel (Resolves response_A)
   \<and> clonedHtml_plain
        (run_effects_plain (initial_panel_plain\<lparr>targetUrl_plain := ''https://example.com''\<rparr>)
          (handleSubmit_plain (initial_panel_plain\<lparr>targetUrl_plain := ''https://example.com''\<rparr>)
            (Resolves response_A))) = JStr example_html
   \<and> clonedHtml (run_effects example_panel (handleSubmit example_panel (Resolves response_A))) =
       JStr example_html"
proof -
  have h: "targetUrl_plain (initial_panel_plain\<lparr>targetUrl_plain := ''https://example.com''\<rparr>) =
     targetUrl example_panel"
    by code_simp
  have v: "clonedHtml (run_effects example_panel (handleSubmit example_panel (Resolves response_A))) =
       JStr example_html"
    by code_simp
  let ?q = "initial_panel_plain\<lparr>targetUrl_plain := ''https://example.com''\<rparr>"
  have a1: "handleSubmit_plain ?q (Resolves response_A) =
      handleSubmit example_panel (Resolves response_A)"
    and a2: "clonedHtml_plain (run_effects_plain ?q (handleSubmit_plain ?q (Resolves response_A))) =
      clonedHtml (run_effects example_panel (handleSubmit example_panel (Resolves response_A)))"
    using variants_agree [where q = ?q and s = example_panel and f = "Resolves response_A"] h
    by blast+
  from a2 v have a3:
    "clonedHtml_plain (run_effects_plain ?q (handleSubmit_plain ?q (Resolves response_A))) =
      JStr example_html"
    by (rule trans)
  show ?thesis
    using h a1 a3 v by blast
qed

end
